theory Spec2Isabelle
  imports Complex_Main "HOL-Library.Word" "HOL-Library.Char_ord"
begin

section \<open>Bytes, strings and numbers\<close>

text \<open>
  A Go string is a sequence of bytes: \<^typ>\<open>string\<close>. Byte comparisons such as
  \<open>json[i] <= ' '\<close> compare the byte values, read here with \<open>bv\<close>.
  Indices and lengths (Go \<open>int\<close>) are natural numbers; every place where the source
  subtracts from an index, or reads or slices outside a syntactic bounds guard, has an
  explicit check, and a failed check is the run-time panic of Go, the value \<open>None\<close>.
\<close>

definition bv :: "char \<Rightarrow> nat" where
  "bv c = of_char c"

definition is_digit :: "char \<Rightarrow> bool" where
  "is_digit c = (48 \<le> bv c \<and> bv c \<le> 57)"

text \<open>The slice expression \<open>s[a:b]\<close>, which panics unless \<open>a \<le> b \<le> len(s)\<close>.\<close>

definition slice :: "string \<Rightarrow> nat \<Rightarrow> nat \<Rightarrow> string option" where
  "slice s a b = (if a \<le> b \<and> b \<le> length s then Some (take (b - a) (drop a s)) else None)"

text \<open>
  The values of a \<open>float64\<close>: the finite ones are rationals (the two zeros are not told
  apart; no operation modelled here does).
\<close>

datatype float64 = Finite rat | PosInf | NegInf | NaN

fun feq :: "float64 \<Rightarrow> float64 \<Rightarrow> bool" where
  "feq NaN _ = False"
| "feq _ NaN = False"
| "feq a b = (a = b)"

fun flt :: "float64 \<Rightarrow> float64 \<Rightarrow> bool" where
  "flt NaN _ = False"
| "flt _ NaN = False"
| "flt (Finite a) (Finite b) = (a < b)"
| "flt NegInf b = (b \<noteq> NegInf)"
| "flt a PosInf = (a \<noteq> PosInf)"
| "flt _ _ = False"

definition fle :: "float64 \<Rightarrow> float64 \<Rightarrow> bool" where
  "fle a b = (flt a b \<or> feq a b)"

text \<open>
  \<open>float64(n)\<close> for an integer \<open>n\<close>: the nearest value with a 53-bit significand, ties to
  the even significand.
\<close>

function bitlen :: "nat \<Rightarrow> nat" where
  "bitlen n = (if n = 0 then 0 else Suc (bitlen (n div 2)))"
  by pat_completeness auto
termination
  by (relation "measure id") auto

declare bitlen.simps [simp del]

definition rne53 :: "nat \<Rightarrow> nat" where
  "rne53 n =
     (let e = bitlen n - 53; q = n div 2 ^ e; r = n mod 2 ^ e
      in if e = 0 then n
         else if 2 * r > 2 ^ e \<or> (2 * r = 2 ^ e \<and> odd q) then (q + 1) * 2 ^ e
         else q * 2 ^ e)"

definition float64_of_int :: "int \<Rightarrow> float64" where
  "float64_of_int n =
     (if n < 0 then Finite (- of_nat (rne53 (nat (- n)))) else Finite (of_nat (rne53 (nat n))))"

text \<open>
  \<open>int64(f)\<close> and \<open>uint64(f)\<close> truncate towards zero. When the truncated value does
  not fit the target type, Go leaves the result to the implementation: it is the parameter
  \<open>oor\<close>.
\<close>

definition trunc_rat :: "rat \<Rightarrow> int" where
  "trunc_rat q = (if q < 0 then - \<lfloor>- q\<rfloor> else \<lfloor>q\<rfloor>)"

definition int64_of_float :: "64 word \<Rightarrow> float64 \<Rightarrow> 64 word" where
  "int64_of_float oor f =
     (case f of
        Finite q \<Rightarrow>
          (let t = trunc_rat q
           in if - (2 ^ 63) \<le> t \<and> t < 2 ^ 63 then word_of_int t else oor)
      | _ \<Rightarrow> oor)"

definition uint64_of_float :: "64 word \<Rightarrow> float64 \<Rightarrow> 64 word" where
  "uint64_of_float oor f =
     (case f of
        Finite q \<Rightarrow>
          (let t = trunc_rat q
           in if 0 \<le> t \<and> t < 2 ^ 64 then word_of_int t else oor)
      | _ \<Rightarrow> oor)"

section \<open>The Result value\<close>

datatype Type = Null | False_T | Number | String | True_T | JSON

record Result =
  Type :: Type
  Raw :: string
  Str :: string
  Num :: float64
  Index :: nat

definition Result0 :: Result where
  "Result0 = \<lparr>Type = Null, Raw = [], Str = [], Num = Finite 0, Index = 0\<rparr>"

definition Exists :: "Result \<Rightarrow> bool" where
  "Exists t = (Type t \<noteq> Null \<or> length (Raw t) \<noteq> 0)"

section \<open>Integer accessors\<close>

fun parseUint_loop :: "string \<Rightarrow> 64 word \<Rightarrow> 64 word \<times> bool" where
  "parseUint_loop [] n = (n, True)"
| "parseUint_loop (c # cs) n =
     (if is_digit c then parseUint_loop cs (n * 10 + of_nat (bv c - 48)) else (0, False))"

definition parseUint :: "string \<Rightarrow> 64 word \<times> bool" where
  "parseUint s = (if length s = 0 then (0, False) else parseUint_loop s 0)"

definition parseInt :: "string \<Rightarrow> 64 word \<times> bool" where
  "parseInt s =
     (let sign = (length s > 0 \<and> s ! 0 = CHR ''-'');
          i = (if sign then 1 else 0)
      in if i = length s then (0, False)
         else (case parseUint_loop (drop i s) 0 of
                 (n, ok) \<Rightarrow>
                   if \<not> ok then (0, False)
                   else if sign then (n * (-1), True)
                   else (n, True)))"

definition minInt53 :: int where "minInt53 = - 2251799813685248"
definition maxInt53 :: int where "maxInt53 = 2251799813685247"
definition minUint53 :: int where "minUint53 = 0"
definition maxUint53 :: int where "maxUint53 = 4503599627370495"

definition floatToUint :: "64 word \<Rightarrow> float64 \<Rightarrow> 64 word \<times> bool" where
  "floatToUint oor f =
     (let n = uint64_of_float oor f
      in if feq (float64_of_int (uint n)) f \<and> minUint53 \<le> uint n \<and> uint n \<le> maxUint53
         then (n, True) else (0, False))"

definition floatToInt :: "64 word \<Rightarrow> float64 \<Rightarrow> 64 word \<times> bool" where
  "floatToInt oor f =
     (let n = int64_of_float oor f
      in if feq (float64_of_int (sint n)) f \<and> minInt53 \<le> sint n \<and> sint n \<le> maxInt53
         then (n, True) else (0, False))"

definition Int_res :: "64 word \<Rightarrow> Result \<Rightarrow> 64 word" where
  "Int_res oor t =
     (case Type t of
        True_T \<Rightarrow> 1
      | String \<Rightarrow> fst (parseInt (Str t))
      | Number \<Rightarrow>
          (case floatToInt oor (Num t) of
             (n, ok) \<Rightarrow>
               if \<not> ok then
                 (case parseInt (Raw t) of
                    (n', ok') \<Rightarrow> if \<not> ok' then int64_of_float oor (Num t) else n')
               else n)
      | _ \<Rightarrow> 0)"

definition Uint_res :: "64 word \<Rightarrow> Result \<Rightarrow> 64 word" where
  "Uint_res oor t =
     (case Type t of
        True_T \<Rightarrow> 1
      | String \<Rightarrow> fst (parseUint (Str t))
      | Number \<Rightarrow>
          (case floatToUint oor (Num t) of
             (n, ok) \<Rightarrow>
               if \<not> ok then
                 (case parseUint (Raw t) of
                    (n', ok') \<Rightarrow> if \<not> ok' then uint64_of_float oor (Num t) else n')
               else n)
      | _ \<Rightarrow> 0)"

text \<open>The decimal representation of an integer, as \<open>strconv.FormatInt\<close> writes it.\<close>

function dec_nat :: "nat \<Rightarrow> string" where
  "dec_nat n = (if n < 10 then [char_of (48 + n)] else dec_nat (n div 10) @ [char_of (48 + n mod 10)])"
  by pat_completeness auto
termination
  by (relation "measure id") auto

declare dec_nat.simps [simp del]

definition dec :: "int \<Rightarrow> string" where
  "dec n = (if n < 0 then CHR ''-'' # dec_nat (nat (- n)) else dec_nat (nat n))"

section \<open>Library functions the source imports\<close>

text \<open>
  \<open>strconv.ParseFloat(s, 64)\<close> (the value it returns, its error dropped as the source
  drops it) and \<open>match.Match(str, pattern)\<close> of \<open>github.com/tidwall/match\<close> are not
  code of this repository: the model takes them as parameters, the fields of \<open>lib\<close>.
\<close>

record lib =
  ParseFloat :: "string \<Rightarrow> float64"
  Match :: "string \<Rightarrow> string \<Rightarrow> bool"

text \<open>
  An instance to run the model on concrete documents: \<open>atof\<close> reads a decimal integer
  literal (an optional \<open>-\<close>, then digits) to the nearest float64, as
  \<open>strconv.ParseFloat\<close> does, and any other string as 0; \<open>lib0\<close> matches a pattern
  by equality, which is \<open>match.Match\<close> on a pattern free of \<open>*\<close>, \<open>?\<close> and \<open>\\<close>.
  The concrete evaluations below parse integer literals only and match no pattern.
\<close>

fun atof_digits :: "string \<Rightarrow> nat \<Rightarrow> nat option" where
  "atof_digits [] n = Some n"
| "atof_digits (c # cs) n = (if is_digit c then atof_digits cs (n * 10 + (bv c - 48)) else None)"

definition atof :: "string \<Rightarrow> float64" where
  "atof s =
     (case s of
        [] \<Rightarrow> Finite 0
      | c # cs \<Rightarrow>
          if c = CHR ''-'' then
            (if cs = [] then Finite 0
             else case atof_digits cs 0 of None \<Rightarrow> Finite 0 | Some n \<Rightarrow> float64_of_int (- int n))
          else (case atof_digits s 0 of None \<Rightarrow> Finite 0 | Some n \<Rightarrow> float64_of_int (int n)))"

definition lib0 :: lib where
  "lib0 = \<lparr>ParseFloat = atof, Match = (\<lambda>str pattern. str = pattern)\<rparr>"

text \<open>Go compares strings byte by byte.\<close>

fun str_lt :: "string \<Rightarrow> string \<Rightarrow> bool" where
  "str_lt [] [] = False"
| "str_lt [] (y # ys) = True"
| "str_lt (x # xs) [] = False"
| "str_lt (x # xs) (y # ys) = (bv x < bv y \<or> (x = y \<and> str_lt xs ys))"

definition str_le :: "string \<Rightarrow> string \<Rightarrow> bool" where
  "str_le a b = (a = b \<or> str_lt a b)"

section \<open>Path segments of an array\<close>

text \<open>
  \<open>arrayPathResult\<close>; its anonymous struct \<open>query\<close> is the record \<open>query_t\<close>, with the
  fields \<open>on\<close>, \<open>path\<close>, \<open>op\<close>, \<open>value\<close> and \<open>all\<close> prefixed by \<open>q_\<close>. The
  fields \<open>part\<close>, \<open>path\<close> and \<open>more\<close>, which \<open>objectPathResult\<close> has too, are
  prefixed by \<open>a_\<close> here and by \<open>o_\<close> there.
\<close>

record query_t =
  q_on :: bool
  q_path :: string
  q_op :: string
  q_value :: string
  q_all :: bool

record arrayPathResult =
  a_part :: string
  a_path :: string
  a_more :: bool
  alogok :: bool
  arrch :: bool
  alogkey :: string
  query :: query_t

definition arrayPathResult0 :: arrayPathResult where
  "arrayPathResult0 =
     \<lparr>a_part = [], a_path = [], a_more = False, alogok = False, arrch = False, alogkey = [],
      query = \<lparr>q_on = False, q_path = [], q_op = [], q_value = [], q_all = False\<rparr>\<rparr>"

section \<open>Comparing a query's value\<close>

definition query_rpv :: "arrayPathResult \<Rightarrow> string" where
  "query_rpv rp =
     (let rpv = q_value (query rp)
      in if length rpv > 2 \<and> rpv ! 0 = CHR 0x22 \<and> rpv ! (length rpv - 1) = CHR 0x22
         then take (length rpv - 2) (drop 1 rpv) else rpv)"

definition queryMatches :: "lib \<Rightarrow> arrayPathResult \<Rightarrow> Result \<Rightarrow> bool" where
  "queryMatches L rp v =
     (let rpv = query_rpv rp; op = q_op (query rp)
      in case Type v of
           String \<Rightarrow>
             if op = ''='' then Str v = rpv
             else if op = ''!='' then Str v \<noteq> rpv
             else if op = ''<'' then str_lt (Str v) rpv
             else if op = ''<='' then str_le (Str v) rpv
             else if op = ''>'' then str_lt rpv (Str v)
             else if op = ''>='' then str_le rpv (Str v)
             else if op = ''%'' then Match L (Str v) rpv
             else False
         | Number \<Rightarrow>
             (let rpvn = ParseFloat L rpv
              in if op = ''='' then feq (Num v) rpvn
                 else if op = ''!='' then feq (Num v) rpvn
                 else if op = ''<'' then flt (Num v) rpvn
                 else if op = ''<='' then fle (Num v) rpvn
                 else if op = ''>'' then flt rpvn (Num v)
                 else if op = ''>='' then fle rpvn (Num v)
                 else False)
         | True_T \<Rightarrow>
             if op = ''='' then rpv = ''true''
             else if op = ''!='' then rpv \<noteq> ''true''
             else if op = ''>'' then rpv = ''false''
             else if op = ''>='' then True
             else False
         | False_T \<Rightarrow>
             if op = ''='' then rpv = ''false''
             else if op = ''!='' then rpv \<noteq> ''false''
             else if op = ''<'' then rpv = ''true''
             else if op = ''<='' then True
             else False
         | _ \<Rightarrow> False)"

section \<open>The validity scanner\<close>

definition is_ws :: "char \<Rightarrow> bool" where
  "is_ws c = (c = CHR '' '' \<or> c = CHR 0x09 \<or> c = CHR 0x0A \<or> c = CHR 0x0D)"

definition is_hex :: "char \<Rightarrow> bool" where
  "is_hex c =
     ((48 \<le> bv c \<and> bv c \<le> 57) \<or> (97 \<le> bv c \<and> bv c \<le> 102) \<or> (65 \<le> bv c \<and> bv c \<le> 70))"

function validcolon :: "string \<Rightarrow> nat \<Rightarrow> nat \<times> bool" where
  "validcolon data i =
     (if i < length data then
        (if is_ws (data ! i) then validcolon data (i + 1)
         else if data ! i = CHR '':'' then (i + 1, True)
         else (i, False))
      else (i, False))"
  by pat_completeness auto
termination
  by (relation "measure (\<lambda>(data, i). length data - i)") auto

declare validcolon.simps [simp del]

function validcomma :: "string \<Rightarrow> nat \<Rightarrow> char \<Rightarrow> nat \<times> bool" where
  "validcomma data i end =
     (if i < length data then
        (if is_ws (data ! i) then validcomma data (i + 1) end
         else if data ! i = CHR '','' then (i, True)
         else if data ! i = end then (i, True)
         else (i, False))
      else (i, False))"
  by pat_completeness auto
termination
  by (relation "measure (\<lambda>(data, i, end). length data - i)") auto

declare validcomma.simps [simp del]

text \<open>The four hexadecimal digits after \<open>\u\<close>: \<open>j\<close> counts the digits still to read.\<close>

fun validstring_u :: "string \<Rightarrow> nat \<Rightarrow> nat \<Rightarrow> nat \<times> bool" where
  "validstring_u data i 0 = (i, True)"
| "validstring_u data i (Suc j) =
     (let i = i + 1
      in if i \<ge> length data then (i, False)
         else if \<not> is_hex (data ! i) then (i, False)
         else validstring_u data i j)"

lemma validstring_u_ge: "i \<le> fst (validstring_u data i j)"
proof (induction j arbitrary: i)
  case 0
  then show ?case by simp
next
  case (Suc j)
  have "i + 1 \<le> fst (validstring_u data (i + 1) j)" by (rule Suc.IH)
  then show ?case by (simp add: Let_def)
qed

function validstring :: "string \<Rightarrow> nat \<Rightarrow> nat \<times> bool" where
  "validstring data i =
     (if i < length data then
        (if bv (data ! i) < 32 then (i, False)
         else if data ! i = CHR 0x5C then
           (let i = i + 1
            in if i = length data then (i, False)
               else if data ! i = CHR 0x22 \<or> data ! i = CHR 0x5C \<or> data ! i \<in> set ''/bfnrt''
               then validstring data (i + 1)
               else if data ! i = CHR ''u'' then
                 (case validstring_u data i 4 of
                    (i', ok) \<Rightarrow> if ok then validstring data (i' + 1) else (i', False))
               else (i, False))
         else if data ! i = CHR 0x22 then (i + 1, True)
         else validstring data (i + 1))
      else (i, False))"
  by pat_completeness auto
termination
  apply (relation "measure (\<lambda>(data, i). length data - i)")
      apply auto
  subgoal for data i x y
    using validstring_u_ge [of "Suc i" data 4] by (cases "validstring_u data (Suc i) 4") auto
  done

declare validstring.simps [simp del]

function skip_digits :: "string \<Rightarrow> nat \<Rightarrow> nat" where
  "skip_digits data i =
     (if i < length data then (if is_digit (data ! i) then skip_digits data (i + 1) else i) else i)"
  by pat_completeness auto
termination
  by (relation "measure (\<lambda>(data, i). length data - i)") auto

declare skip_digits.simps [simp del]

definition validnumber_exp :: "string \<Rightarrow> nat \<Rightarrow> (nat \<times> bool) option" where
  "validnumber_exp data i =
     (if i = length data then Some (i, True)
      else if i > length data then None
      else if data ! i = CHR ''e'' \<or> data ! i = CHR ''E'' then
        (let i = i + 1
         in if i = length data then Some (i, False)
            else
              (let i = (if data ! i = CHR ''+'' \<or> data ! i = CHR ''-'' then i + 1 else i)
               in if i = length data then Some (i, False)
                  else if \<not> is_digit (data ! i) then Some (i, False)
                  else Some (skip_digits data (i + 1), True)))
      else Some (i, True))"

definition validnumber_frac :: "string \<Rightarrow> nat \<Rightarrow> (nat \<times> bool) option" where
  "validnumber_frac data i =
     (if i = length data then Some (i, True)
      else if i > length data then None
      else if data ! i = CHR ''.'' then
        (let i = i + 1
         in if i = length data then Some (i, False)
            else if \<not> is_digit (data ! i) then Some (i, False)
            else validnumber_exp data (skip_digits data (i + 1)))
      else validnumber_exp data i)"

text \<open>
  \<open>validnumber\<close> steps back to the byte its caller has read: \<open>data[i-1]\<close> panics when
  there is none, as does a read of \<open>data[i]\<close> past the end, which the source guards with
  \<open>i == len(data)\<close> only.
\<close>

definition validnumber :: "string \<Rightarrow> nat \<Rightarrow> (nat \<times> bool) option" where
  "validnumber data i0 =
     (if i0 = 0 \<or> i0 - 1 \<ge> length data then None
      else
        (let i = i0 - 1;
             i = (if data ! i = CHR ''-'' then i + 1 else i)
         in if i = length data then Some (i, False)
            else
              (let i = (if data ! i = CHR ''0'' then i + 1 else skip_digits data i)
               in validnumber_frac data i)))"

definition validtrue :: "string \<Rightarrow> nat \<Rightarrow> nat \<times> bool" where
  "validtrue data i =
     (if i + 3 \<le> length data \<and> data ! i = CHR ''r'' \<and> data ! (i + 1) = CHR ''u''
         \<and> data ! (i + 2) = CHR ''e''
      then (i + 3, True) else (i, False))"

definition validfalse :: "string \<Rightarrow> nat \<Rightarrow> nat \<times> bool" where
  "validfalse data i =
     (if i + 4 \<le> length data \<and> data ! i = CHR ''a'' \<and> data ! (i + 1) = CHR ''l''
         \<and> data ! (i + 2) = CHR ''s'' \<and> data ! (i + 3) = CHR ''e''
      then (i + 4, True) else (i, False))"

definition validnull :: "string \<Rightarrow> nat \<Rightarrow> nat \<times> bool" where
  "validnull data i =
     (if i + 3 \<le> length data \<and> data ! i = CHR ''u'' \<and> data ! (i + 1) = CHR ''l''
         \<and> data ! (i + 2) = CHR ''l''
      then (i + 3, True) else (i, False))"

text \<open>
  In \<open>validobject\<close>, the loop after a comma that looks for the quote of the next key:
  the index of the first quote at or after \<open>i\<close>, or the length of the data.
\<close>

function validobject_seek :: "string \<Rightarrow> nat \<Rightarrow> nat" where
  "validobject_seek data i =
     (if i < length data then (if data ! i = CHR 0x22 then i else validobject_seek data (i + 1))
      else i)"
  by pat_completeness auto
termination
  by (relation "measure (\<lambda>(data, i). length data - i)") auto

declare validobject_seek.simps [simp del]

text \<open>
  \<open>validany\<close>, \<open>validobject\<close> and \<open>validarray\<close> call each other and loop on the index
  the callee returns. The first argument is fuel: every call and every turn of a loop
  takes one unit, and \<open>None\<close> is fuel exhausted or a panic (a read of \<open>data[i]\<close> outside
  the data). \<open>validobject_key\<close> is the code from the label \<open>key\<close>, with \<open>i\<close> at the
  quote; \<open>validarray_elems\<close> is the inner loop of \<open>validarray\<close>.
\<close>

function (sequential) validany :: "nat \<Rightarrow> string \<Rightarrow> nat \<Rightarrow> (nat \<times> bool) option"
  and validobject :: "nat \<Rightarrow> string \<Rightarrow> nat \<Rightarrow> (nat \<times> bool) option"
  and validobject_key :: "nat \<Rightarrow> string \<Rightarrow> nat \<Rightarrow> (nat \<times> bool) option"
  and validarray :: "nat \<Rightarrow> string \<Rightarrow> nat \<Rightarrow> (nat \<times> bool) option"
  and validarray_elems :: "nat \<Rightarrow> string \<Rightarrow> nat \<Rightarrow> (nat \<times> bool) option"
where
  "validany 0 data i = None"
| "validany (Suc n) data i =
     (if i < length data then
        (let c = data ! i
         in if is_ws c then validany n data (i + 1)
            else if c = CHR ''{'' then validobject n data (i + 1)
            else if c = CHR ''['' then validarray n data (i + 1)
            else if c = CHR 0x22 then Some (validstring data (i + 1))
            else if c = CHR ''-'' \<or> is_digit c then validnumber data (i + 1)
            else if c = CHR ''t'' then Some (validtrue data (i + 1))
            else if c = CHR ''f'' then Some (validfalse data (i + 1))
            else if c = CHR ''n'' then Some (validnull data (i + 1))
            else Some (i, False))
      else Some (i, False))"
| "validobject 0 data i = None"
| "validobject (Suc n) data i =
     (if i < length data then
        (let c = data ! i
         in if is_ws c then validobject n data (i + 1)
            else if c = CHR ''}'' then Some (i + 1, True)
            else if c = CHR 0x22 then validobject_key n data i
            else Some (i, False))
      else Some (i, False))"
| "validobject_key 0 data i = None"
| "validobject_key (Suc n) data i =
     (case validstring data (i + 1) of
        (i, ok) \<Rightarrow>
          if \<not> ok then Some (i, False)
          else
            (case validcolon data i of
               (i, ok) \<Rightarrow>
                 if \<not> ok then Some (i, False)
                 else
                   (case validany n data i of
                      None \<Rightarrow> None
                    | Some (i, ok) \<Rightarrow>
                        if \<not> ok then Some (i, False)
                        else
                          (case validcomma data i (CHR ''}'') of
                             (i, ok) \<Rightarrow>
                               if \<not> ok then Some (i, False)
                               else if i \<ge> length data then None
                               else if data ! i = CHR ''}'' then Some (i + 1, True)
                               else
                                 (let i = validobject_seek data i
                                  in if i < length data then validobject_key n data i
                                     else Some (i, False))))))"
| "validarray 0 data i = None"
| "validarray (Suc n) data i =
     (if i < length data then
        (let c = data ! i
         in if is_ws c then validarray n data (i + 1)
            else if c = CHR '']'' then Some (i + 1, True)
            else validarray_elems n data i)
      else Some (i, False))"
| "validarray_elems 0 data i = None"
| "validarray_elems (Suc n) data i =
     (if i < length data then
        (case validany n data i of
           None \<Rightarrow> None
         | Some (i, ok) \<Rightarrow>
             if \<not> ok then Some (i, False)
             else
               (case validcomma data i (CHR '']'') of
                  (i, ok) \<Rightarrow>
                    if \<not> ok then Some (i, False)
                    else if i \<ge> length data then None
                    else if data ! i = CHR '']'' then Some (i + 1, True)
                    else validarray_elems n data (i + 1)))
      else Some (i, False))"
  by pat_completeness auto
termination
  by (relation "measure (\<lambda>x. case x of
          Inl (Inl (n, _, _)) \<Rightarrow> n | Inl (Inr (n, _, _)) \<Rightarrow> n
        | Inr (Inl (n, _, _)) \<Rightarrow> n | Inr (Inr (Inl (n, _, _))) \<Rightarrow> n
        | Inr (Inr (Inr (n, _, _))) \<Rightarrow> n)") auto

text \<open>The loop of \<open>validpayload\<close> over the bytes after the value.\<close>

function validpayload_rest :: "string \<Rightarrow> nat \<Rightarrow> nat \<times> bool" where
  "validpayload_rest data i =
     (if i < length data then
        (if is_ws (data ! i) then validpayload_rest data (i + 1) else (i, False))
      else (i, True))"
  by pat_completeness auto
termination
  by (relation "measure (\<lambda>(data, i). length data - i)") auto

declare validpayload_rest.simps [simp del]

function validpayload :: "nat \<Rightarrow> string \<Rightarrow> nat \<Rightarrow> (nat \<times> bool) option" where
  "validpayload n data i =
     (if i < length data then
        (if is_ws (data ! i) then validpayload n data (i + 1)
         else
           (case validany n data i of
              None \<Rightarrow> None
            | Some (i, ok) \<Rightarrow> if \<not> ok then Some (i, False) else Some (validpayload_rest data i)))
      else Some (i, False))"
  by pat_completeness auto
termination
  by (relation "measure (\<lambda>(n, data, i). length data - i)") auto

declare validpayload.simps [simp del]

definition Valid :: "nat \<Rightarrow> string \<Rightarrow> bool option" where
  "Valid n json = map_option snd (validpayload n json 0)"

section \<open>The byte scanner\<close>

text \<open>
  \<open>substr s a b\<close> is \<open>s[a:b]\<close> where the source has made sure of \<open>a \<le> b \<le> len(s)\<close>, and
  \<open>s[a:]\<close> when \<open>b\<close> is at or past the end.
\<close>

definition substr :: "string \<Rightarrow> nat \<Rightarrow> nat \<Rightarrow> string" where
  "substr s a b = take (b - a) (drop a s)"

text \<open>
  The count of backslashes that the source makes before it takes a quote for the end of a
  string: \<open>for j := i - 2; j > lo; j-- { if json[j] != '\\' { break }; n++ }\<close>, started at
  \<open>j\<close>.
\<close>

fun count_bs :: "string \<Rightarrow> nat \<Rightarrow> nat \<Rightarrow> nat" where
  "count_bs json lo 0 = 0"
| "count_bs json lo (Suc j) =
     (if Suc j > lo \<and> json ! Suc j = CHR 0x5C then Suc (count_bs json lo j) else 0)"

text \<open>
  The loop of \<open>parseString\<close>, which is also the loop \<open>parse_key_string\<close> of
  \<open>parseObject\<close>: from the byte after the opening quote, it returns the index after the
  closing quote, whether a backslash was met, and whether the string is closed.
  \<open>scan_string_esc\<close> is the inner loop, entered after the first backslash.
\<close>

function scan_string_esc :: "string \<Rightarrow> nat \<Rightarrow> nat \<times> bool \<times> bool" where
  "scan_string_esc json i =
     (if i < length json then
        (if bv (json ! i) > 92 then scan_string_esc json (i + 1)
         else if json ! i = CHR 0x22 then
           (if json ! (i - 1) = CHR 0x5C \<and> even (count_bs json 0 (i - 2))
            then scan_string_esc json (i + 1)
            else (i + 1, True, True))
         else scan_string_esc json (i + 1))
      else (i, False, False))"
  by pat_completeness auto
termination
  by (relation "measure (\<lambda>(json, i). length json - i)") auto

declare scan_string_esc.simps [simp del]

function scan_string :: "string \<Rightarrow> nat \<Rightarrow> nat \<times> bool \<times> bool" where
  "scan_string json i =
     (if i < length json then
        (if bv (json ! i) > 92 then scan_string json (i + 1)
         else if json ! i = CHR 0x22 then (i + 1, False, True)
         else if json ! i = CHR 0x5C then scan_string_esc json (i + 1)
         else scan_string json (i + 1))
      else (i, False, False))"
  by pat_completeness auto
termination
  by (relation "measure (\<lambda>(json, i). length json - i)") auto

declare scan_string.simps [simp del]

text \<open>
  \<open>parseString(json, i)\<close> returns \<open>json[s-1 : i+1]\<close>, or \<open>json[s-1:]\<close> for a string that is
  not closed: the slice panics when \<open>s\<close> is 0 or beyond \<open>len(json) + 1\<close>.
\<close>

definition parseString :: "string \<Rightarrow> nat \<Rightarrow> (nat \<times> string \<times> bool \<times> bool) option" where
  "parseString json s =
     (if s = 0 \<or> length json + 1 < s then None
      else
        (case scan_string json s of
           (i, esc, ok) \<Rightarrow>
             Some (i, if ok then substr json (s - 1) i else drop (s - 1) json, esc, ok)))"

text \<open>The key of \<open>parse_key_string\<close>, without its quotes: \<open>json[s:i]\<close>, or \<open>json[s:]\<close>.\<close>

definition parse_key_string :: "string \<Rightarrow> nat \<Rightarrow> nat \<times> string \<times> bool \<times> bool" where
  "parse_key_string json s =
     (case scan_string json s of
        (i, esc, ok) \<Rightarrow> (i, if ok then substr json s (i - 1) else drop s json, esc, ok))"

function parseNumber_loop :: "string \<Rightarrow> nat \<Rightarrow> nat" where
  "parseNumber_loop json i =
     (if i < length json then
        (if bv (json ! i) \<le> 32 \<or> json ! i = CHR '','' \<or> json ! i = CHR '']'' \<or> json ! i = CHR ''}''
         then i else parseNumber_loop json (i + 1))
      else i)"
  by pat_completeness auto
termination
  by (relation "measure (\<lambda>(json, i). length json - i)") auto

declare parseNumber_loop.simps [simp del]

text \<open>\<open>parseNumber\<close> and \<open>parseLiteral\<close> are called at a byte of the document, \<open>i < len(json)\<close>.\<close>

definition parseNumber :: "string \<Rightarrow> nat \<Rightarrow> nat \<times> string" where
  "parseNumber json s = (let i = parseNumber_loop json (s + 1) in (i, substr json s i))"

function parseLiteral_loop :: "string \<Rightarrow> nat \<Rightarrow> nat" where
  "parseLiteral_loop json i =
     (if i < length json then
        (if bv (json ! i) < 97 \<or> bv (json ! i) > 122 then i else parseLiteral_loop json (i + 1))
      else i)"
  by pat_completeness auto
termination
  by (relation "measure (\<lambda>(json, i). length json - i)") auto

declare parseLiteral_loop.simps [simp del]

definition parseLiteral :: "string \<Rightarrow> nat \<Rightarrow> nat \<times> string" where
  "parseLiteral json s = (let i = parseLiteral_loop json (s + 1) in (i, substr json s i))"

text \<open>
  The loop that skips a string inside \<open>parseSquash\<close>, \<open>squash\<close> and the query of
  \<open>parseArrayPath\<close> (the same text three times): from \<open>i\<close>, the index of the closing
  quote, or the length; \<open>s2\<close> is the index after the opening quote.
\<close>

function skip_str :: "string \<Rightarrow> nat \<Rightarrow> nat \<Rightarrow> nat" where
  "skip_str json s2 i =
     (if i < length json then
        (if bv (json ! i) > 92 then skip_str json s2 (i + 1)
         else if json ! i = CHR 0x22 then
           (if json ! (i - 1) = CHR 0x5C \<and> even (count_bs json (s2 - 1) (i - 2))
            then skip_str json s2 (i + 1)
            else i)
         else skip_str json s2 (i + 1))
      else i)"
  by pat_completeness auto
termination
  by (relation "measure (\<lambda>(json, s2, i). length json - i)") auto

declare skip_str.simps [simp del]

lemma skip_str_ge: "i \<le> skip_str json s2 i"
proof (induction json s2 i rule: skip_str.induct)
  case (1 json s2 i)
  have *: "Suc i \<le> x \<Longrightarrow> i \<le> x" for x by simp
  from 1 show ?case
    by (subst skip_str.simps) (auto intro: * simp: bv_def)
qed

text \<open>
  The loop of \<open>parseSquash\<close> and of \<open>squash\<close>: the index after the bracket that closes
  the container, or an index at or past the end when nothing closes it.
\<close>

function parseSquash_loop :: "string \<Rightarrow> nat \<Rightarrow> nat \<Rightarrow> nat" where
  "parseSquash_loop json depth i =
     (if i < length json then
        (let c = json ! i
         in if 34 \<le> bv c \<and> bv c \<le> 125 then
              (if c = CHR 0x22 then parseSquash_loop json depth (skip_str json (i + 1) (i + 1) + 1)
               else if c = CHR ''{'' \<or> c = CHR ''['' then parseSquash_loop json (depth + 1) (i + 1)
               else if c = CHR ''}'' \<or> c = CHR '']'' then
                 (if depth = 1 then i + 1 else parseSquash_loop json (depth - 1) (i + 1))
               else parseSquash_loop json depth (i + 1))
            else parseSquash_loop json depth (i + 1))
      else i)"
  by pat_completeness auto
termination
  apply (relation "measure (\<lambda>(json, depth, i). length json - i)")
       apply auto
  subgoal for json i
    using skip_str_ge [of "Suc i" json "Suc i"] by simp
  done

declare parseSquash_loop.simps [simp del]

definition parseSquash :: "string \<Rightarrow> nat \<Rightarrow> nat \<times> string" where
  "parseSquash json s = (let i = parseSquash_loop json 1 (s + 1) in (i, substr json s i))"

definition squash :: "string \<Rightarrow> string" where
  "squash json = substr json 0 (parseSquash_loop json 1 1)"

section \<open>Unescaping\<close>

text \<open>
  \<open>runeit\<close> reads four hexadecimal digits with \<open>strconv.ParseUint\<close>, which gives 0 when
  one of them is not a digit. \<open>utf16.IsSurrogate\<close>, \<open>utf16.DecodeRune\<close> and
  \<open>utf8.EncodeRune\<close> are written out; U+FFFD replaces what cannot be encoded.
\<close>

definition hexval :: "char \<Rightarrow> nat option" where
  "hexval c =
     (if 48 \<le> bv c \<and> bv c \<le> 57 then Some (bv c - 48)
      else if 97 \<le> bv c \<and> bv c \<le> 102 then Some (bv c - 87)
      else if 65 \<le> bv c \<and> bv c \<le> 70 then Some (bv c - 55)
      else None)"

definition runeit :: "string \<Rightarrow> nat" where
  "runeit json =
     (case map hexval (take 4 json) of
        [Some a, Some b, Some c, Some d] \<Rightarrow> ((a * 16 + b) * 16 + c) * 16 + d
      | _ \<Rightarrow> 0)"

definition IsSurrogate :: "nat \<Rightarrow> bool" where
  "IsSurrogate r = (0xD800 \<le> r \<and> r < 0xE000)"

definition DecodeRune :: "nat \<Rightarrow> nat \<Rightarrow> nat" where
  "DecodeRune r1 r2 =
     (if 0xD800 \<le> r1 \<and> r1 < 0xDC00 \<and> 0xDC00 \<le> r2 \<and> r2 < 0xE000
      then (r1 - 0xD800) * 1024 + (r2 - 0xDC00) + 0x10000
      else 0xFFFD)"

definition EncodeRune :: "nat \<Rightarrow> string" where
  "EncodeRune r =
     (if r < 0x80 then [char_of r]
      else if r < 0x800 then [char_of (0xC0 + r div 64), char_of (0x80 + r mod 64)]
      else if r > 0x10FFFF \<or> (0xD800 \<le> r \<and> r < 0xE000) then
        [char_of (0xEF :: nat), char_of (0xBF :: nat), char_of (0xBD :: nat)]
      else if r < 0x10000 then
        [char_of (0xE0 + r div 4096), char_of (0x80 + (r div 64) mod 64), char_of (0x80 + r mod 64)]
      else
        [char_of (0xF0 + r div 262144), char_of (0x80 + (r div 4096) mod 64),
         char_of (0x80 + (r div 64) mod 64), char_of (0x80 + r mod 64)])"

function unescape_loop :: "string \<Rightarrow> nat \<Rightarrow> string \<Rightarrow> string" where
  "unescape_loop json i str =
     (if i < length json then
        (if bv (json ! i) < 32 then str
         else if json ! i = CHR 0x5C then
           (let i = i + 1
            in if i \<ge> length json then str
               else
                 (let c = json ! i
                  in if c = CHR 0x5C then unescape_loop json (i + 1) (str @ [CHR 0x5C])
                     else if c = CHR ''/'' then unescape_loop json (i + 1) (str @ ''/'')
                     else if c = CHR ''b'' then unescape_loop json (i + 1) (str @ [CHR 0x08])
                     else if c = CHR ''f'' then unescape_loop json (i + 1) (str @ [CHR 0x0C])
                     else if c = CHR ''n'' then unescape_loop json (i + 1) (str @ [CHR 0x0A])
                     else if c = CHR ''r'' then unescape_loop json (i + 1) (str @ [CHR 0x0D])
                     else if c = CHR ''t'' then unescape_loop json (i + 1) (str @ [CHR 0x09])
                     else if c = CHR 0x22 then unescape_loop json (i + 1) (str @ [CHR 0x22])
                     else if c = CHR ''u'' then
                       (if i + 5 > length json then str
                        else
                          (let r = runeit (drop (i + 1) json); i = i + 5
                           in if IsSurrogate r \<and> length json - i \<ge> 6 \<and> json ! i = CHR 0x5C
                                 \<and> json ! (i + 1) = CHR ''u''
                              then unescape_loop json (i + 6)
                                     (str @ EncodeRune (DecodeRune r (runeit (drop (i + 2) json))))
                              else unescape_loop json i (str @ EncodeRune r)))
                     else str))
         else unescape_loop json (i + 1) (str @ [json ! i]))
      else str)"
  by pat_completeness auto
termination
  by (relation "measure (\<lambda>(json, i, str). length json - i)") auto

declare unescape_loop.simps [simp del]

definition unescape :: "string \<Rightarrow> string" where
  "unescape json = unescape_loop json 0 []"

section \<open>Path segments\<close>

record objectPathResult =
  o_part :: string
  o_path :: string
  o_wild :: bool
  o_more :: bool

text \<open>The escape mode of \<open>parseObjectPath\<close>: the loop that strips the backslashes.\<close>

function parseObjectPath_esc :: "string \<Rightarrow> nat \<Rightarrow> string \<Rightarrow> bool \<Rightarrow> objectPathResult" where
  "parseObjectPath_esc path i epart wild =
     (if i < length path then
        (if path ! i = CHR 0x5C then
           (let i = i + 1
            in parseObjectPath_esc path (i + 1)
                 (if i < length path then epart @ [path ! i] else epart) wild)
         else if path ! i = CHR ''.'' then
           \<lparr>o_part = epart, o_path = drop (i + 1) path, o_wild = wild, o_more = True\<rparr>
         else
           parseObjectPath_esc path (i + 1) (epart @ [path ! i])
             (wild \<or> path ! i = CHR ''*'' \<or> path ! i = CHR ''?''))
      else \<lparr>o_part = epart, o_path = [], o_wild = wild, o_more = False\<rparr>)"
  by pat_completeness auto
termination
  by (relation "measure (\<lambda>(path, i, epart, wild). length path - i)") auto

declare parseObjectPath_esc.simps [simp del]

function parseObjectPath_loop :: "string \<Rightarrow> nat \<Rightarrow> bool \<Rightarrow> objectPathResult" where
  "parseObjectPath_loop path i wild =
     (if i < length path then
        (if path ! i = CHR ''.'' then
           \<lparr>o_part = take i path, o_path = drop (i + 1) path, o_wild = wild, o_more = True\<rparr>
         else if path ! i = CHR ''*'' \<or> path ! i = CHR ''?'' then
           parseObjectPath_loop path (i + 1) True
         else if path ! i = CHR 0x5C then
           (let epart = take i path; i = i + 1
            in if i < length path then
                 parseObjectPath_esc path (i + 1) (epart @ [path ! i]) wild
               else \<lparr>o_part = epart, o_path = [], o_wild = wild, o_more = False\<rparr>)
         else parseObjectPath_loop path (i + 1) wild)
      else \<lparr>o_part = path, o_path = [], o_wild = wild, o_more = False\<rparr>)"
  by pat_completeness auto
termination
  by (relation "measure (\<lambda>(path, i, wild). length path - i)") auto

declare parseObjectPath_loop.simps [simp del]

definition parseObjectPath :: "string \<Rightarrow> objectPathResult" where
  "parseObjectPath path = parseObjectPath_loop path 0 False"

text \<open>
  The query of \<open>parseArrayPath\<close>, after \<open>#[\<close>. The loops that skip bytes up to one above
  the space, that read the sub-path up to an operator, and that read the value up to the
  closing bracket, a quoted string skipped whole; the last one may stop one past the end.
\<close>

function skip_le_space :: "string \<Rightarrow> nat \<Rightarrow> nat" where
  "skip_le_space path i =
     (if i < length path then (if bv (path ! i) > 32 then i else skip_le_space path (i + 1))
      else i)"
  by pat_completeness auto
termination
  by (relation "measure (\<lambda>(path, i). length path - i)") auto

declare skip_le_space.simps [simp del]

function query_path_end :: "string \<Rightarrow> nat \<Rightarrow> nat" where
  "query_path_end path i =
     (if i < length path then
        (if bv (path ! i) \<le> 32 \<or> path ! i \<in> set ''!=<>%]'' then i
         else query_path_end path (i + 1))
      else i)"
  by pat_completeness auto
termination
  by (relation "measure (\<lambda>(path, i). length path - i)") auto

declare query_path_end.simps [simp del]

function query_value_loop :: "string \<Rightarrow> nat \<Rightarrow> nat \<times> bool" where
  "query_value_loop path i =
     (if i < length path then
        (if path ! i = CHR 0x22 then query_value_loop path (skip_str path (i + 1) (i + 1) + 1)
         else if path ! i = CHR '']'' then (i, i + 1 < length path \<and> path ! (i + 1) = CHR ''#'')
         else query_value_loop path (i + 1))
      else (i, False))"
  by pat_completeness auto
termination
  apply (relation "measure (\<lambda>(path, i). length path - i)")
    apply auto
  subgoal for path i
    using skip_str_ge [of "Suc i" path "Suc i"] by simp
  done

declare query_value_loop.simps [simp del]

text \<open>\<open>for len(v) > 0 && v[len(v)-1] <= ' ' { v = v[:len(v)-1] }\<close>\<close>

definition trim_right :: "string \<Rightarrow> string" where
  "trim_right v = rev (dropWhile (\<lambda>c. bv c \<le> 32) (rev v))"

text \<open>
  The operator: the index \<open>s\<close> where it starts and the index \<open>i\<close> of its last byte, from
  the index of its first byte.
\<close>

definition query_op_span :: "string \<Rightarrow> nat \<Rightarrow> nat \<times> nat" where
  "query_op_span path i =
     (if path ! i = CHR ''!'' then
        (if i < length path - 1 \<and> path ! (i + 1) = CHR ''='' then (i, i + 1) else (i, i))
      else if path ! i = CHR ''<'' \<or> path ! i = CHR ''>'' then
        (if i < length path - 1 \<and> path ! (i + 1) = CHR ''='' then (i, i + 1) else (i, i))
      else if path ! i = CHR ''='' then
        (if i < length path - 1 \<and> path ! (i + 1) = CHR ''='' then (i + 1, i + 1) else (i, i))
      else (i, i))"

text \<open>
  \<open>parse_query\<close> returns the query and the index where the scan of the path goes on. Its
  slices \<open>path[s:i]\<close> are checked: \<open>None\<close> is the panic of a slice out of range.
\<close>

definition parse_query :: "string \<Rightarrow> nat \<Rightarrow> (query_t \<times> nat) option" where
  "parse_query path i0 =
     (let s = skip_le_space path i0;
          i = query_path_end path s
      in case slice path s i of
           None \<Rightarrow> None
         | Some qp \<Rightarrow>
             (let q = \<lparr>q_on = True, q_path = qp, q_op = [], q_value = [], q_all = False\<rparr>;
                  i = skip_le_space path i
              in if i < length path then
                   (case query_op_span path i of
                      (s, i) \<Rightarrow>
                        (let i = i + 1
                         in case slice path s i of
                              None \<Rightarrow> None
                            | Some op \<Rightarrow>
                                (let s = skip_le_space path i
                                 in case query_value_loop path s of
                                      (i, all) \<Rightarrow>
                                        (let i = (if i > length path then length path else i)
                                         in case slice path s i of
                                              None \<Rightarrow> None
                                            | Some v \<Rightarrow>
                                                Some (q\<lparr>q_op := op, q_value := trim_right v,
                                                        q_all := all\<rparr>, i)))))
                 else Some (q, i)))"

text \<open>The loop of \<open>parseArrayPath\<close> from an index where \<open>#\<close> has no special reading.\<close>

function parseArrayPath_loop :: "arrayPathResult \<Rightarrow> string \<Rightarrow> nat \<Rightarrow> arrayPathResult" where
  "parseArrayPath_loop r path i =
     (if i < length path then
        (if path ! i = CHR ''.'' then
           r\<lparr>a_part := take i path, a_path := drop (i + 1) path, a_more := True\<rparr>
         else if path ! i = CHR ''#'' then parseArrayPath_loop (r\<lparr>arrch := True\<rparr>) path (i + 1)
         else parseArrayPath_loop r path (i + 1))
      else r\<lparr>a_part := path, a_path := []\<rparr>)"
  by pat_completeness auto
termination
  by (relation "measure (\<lambda>(r, path, i). length path - i)") auto

declare parseArrayPath_loop.simps [simp del]

text \<open>
  \<open>parseArrayPath\<close>. The source reads \<open>#.\<close> and \<open>#[\<close> in the turn \<open>i == 0\<close> of its loop
  only: that first turn is written out here, and the loop goes on after it.
\<close>

definition parseArrayPath :: "string \<Rightarrow> arrayPathResult option" where
  "parseArrayPath path =
     (if length path > 1 \<and> path ! 0 = CHR ''#'' then
        (let r = arrayPathResult0\<lparr>arrch := True\<rparr>
         in if path ! 1 = CHR ''.'' then
              Some (parseArrayPath_loop
                      (r\<lparr>alogok := True, alogkey := drop 2 path, a_path := take 1 path\<rparr>) path 1)
            else if path ! 1 = CHR ''['' then
              (case parse_query path 2 of
                 None \<Rightarrow> None
               | Some (q, i) \<Rightarrow> Some (parseArrayPath_loop (r\<lparr>query := q\<rparr>) path (i + 1)))
            else Some (parseArrayPath_loop r path 1))
      else Some (parseArrayPath_loop arrayPathResult0 path 0))"

section \<open>The path evaluator\<close>

text \<open>
  \<open>parseContext\<close>, with one field the source does not have: \<open>c_vptr\<close> is where the data
  pointer of \<open>value.Raw\<close> points, \<open>Some k\<close> when \<open>Raw\<close> is the slice of the document that
  starts at byte \<open>k\<close>, and \<open>None\<close> when \<open>Raw\<close> is empty or a string built by the evaluator.
  \<open>Get\<close> computes \<open>Index\<close> from that pointer.
\<close>

record parseContext =
  c_json :: string
  c_value :: Result
  c_calcd :: bool
  c_vptr :: "nat option"

definition GetResult :: "parseContext \<Rightarrow> Result" where
  "GetResult c =
     (let v = c_value c
      in if length (Raw v) > 0 \<and> \<not> c_calcd c then
           v\<lparr>Index := (case c_vptr c of
                         None \<Rightarrow> 0
                       | Some k \<Rightarrow> if k \<ge> length (c_json c) then 0 else k)\<rparr>
         else v)"

text \<open>What the evaluator stores on a hit, for each kind of value; \<open>s\<close> is where \<open>val\<close> starts.\<close>

definition hit_string :: "parseContext \<Rightarrow> nat \<Rightarrow> string \<Rightarrow> bool \<Rightarrow> parseContext option" where
  "hit_string c s val vesc =
     (case slice val 1 (length val - 1) of
        None \<Rightarrow> None
      | Some inner \<Rightarrow>
          Some (c\<lparr>c_value := (c_value c)\<lparr>Str := (if vesc then unescape inner else inner),
                                            Raw := val, Type := String\<rparr>,
                  c_vptr := Some s\<rparr>))"

definition hit_json :: "parseContext \<Rightarrow> nat \<Rightarrow> string \<Rightarrow> parseContext" where
  "hit_json c s val = c\<lparr>c_value := (c_value c)\<lparr>Raw := val, Type := JSON\<rparr>, c_vptr := Some s\<rparr>"

definition hit_number :: "lib \<Rightarrow> parseContext \<Rightarrow> nat \<Rightarrow> string \<Rightarrow> parseContext" where
  "hit_number L c s val =
     c\<lparr>c_value := (c_value c)\<lparr>Raw := val, Type := Number, Num := ParseFloat L val\<rparr>,
       c_vptr := Some s\<rparr>"

definition hit_literal :: "parseContext \<Rightarrow> nat \<Rightarrow> char \<Rightarrow> string \<Rightarrow> parseContext" where
  "hit_literal c s vc val =
     c\<lparr>c_value := (c_value c)\<lparr>Raw := val,
                               Type := (if vc = CHR ''t'' then True_T
                                        else if vc = CHR ''f'' then False_T
                                        else Type (c_value c))\<rparr>,
       c_vptr := Some s\<rparr>"

text \<open>The first loop of \<open>parseObject\<close>: up to the quote of a key or the end of the object.\<close>

datatype key_scan = KeyQuote nat | ObjectEnd nat | NoKey nat

function find_key :: "string \<Rightarrow> nat \<Rightarrow> key_scan" where
  "find_key json i =
     (if i < length json then
        (if json ! i = CHR 0x22 then KeyQuote i
         else if json ! i = CHR ''}'' then ObjectEnd (i + 1)
         else find_key json (i + 1))
      else NoKey i)"
  by pat_completeness auto
termination
  by (relation "measure (\<lambda>(json, i). length json - i)") auto

declare find_key.simps [simp del]

text \<open>
  The \<open>default: continue\<close> of the loops over a value: the index of the first byte that
  starts a case of the switch, in an object and in an array (where \<open>]\<close> is a case too).
\<close>

definition object_case :: "char \<Rightarrow> bool" where
  "object_case c =
     (c = CHR 0x22 \<or> c = CHR ''{'' \<or> c = CHR ''['' \<or> c = CHR ''-'' \<or> is_digit c
      \<or> c = CHR ''t'' \<or> c = CHR ''f'' \<or> c = CHR ''n'')"

function object_value_start :: "string \<Rightarrow> nat \<Rightarrow> nat" where
  "object_value_start json i =
     (if i < length json then (if object_case (json ! i) then i else object_value_start json (i + 1))
      else i)"
  by pat_completeness auto
termination
  by (relation "measure (\<lambda>(json, i). length json - i)") auto

declare object_value_start.simps [simp del]

function array_value_start :: "string \<Rightarrow> nat \<Rightarrow> nat" where
  "array_value_start json i =
     (if i < length json then
        (if object_case (json ! i) \<or> json ! i = CHR '']'' then i
         else array_value_start json (i + 1))
      else i)"
  by pat_completeness auto
termination
  by (relation "measure (\<lambda>(json, i). length json - i)") auto

declare array_value_start.simps [simp del]

text \<open>The loop of \<open>Get\<close>: the index of the first \<open>{\<close> or \<open>[\<close>.\<close>

function find_open :: "string \<Rightarrow> nat \<Rightarrow> nat" where
  "find_open json i =
     (if i < length json then
        (if json ! i = CHR ''{'' \<or> json ! i = CHR ''['' then i else find_open json (i + 1))
      else i)"
  by pat_completeness auto
termination
  by (relation "measure (\<lambda>(json, i). length json - i)") auto

declare find_open.simps [simp del]

text \<open>The array that \<open>#.key\<close> builds from the results that exist.\<close>

fun join_raw :: "Result list \<Rightarrow> nat \<Rightarrow> string" where
  "join_raw [] k = []"
| "join_raw (res # rs) k =
     (if Exists res then (if k > 0 then '','' else []) @ Raw res @ join_raw rs (k + 1)
      else join_raw rs k)"

definition match_key :: "lib \<Rightarrow> objectPathResult \<Rightarrow> string \<Rightarrow> bool \<Rightarrow> bool" where
  "match_key L rp key kesc =
     (if o_wild rp then
        (if kesc then Match L (unescape key) (o_part rp) else Match L key (o_part rp))
      else (if kesc then o_part rp = unescape key else o_part rp = key))"

text \<open>
  \<open>parseObject\<close>, \<open>parseArray\<close> and \<open>Get\<close> call each other. The first argument is fuel:
  every call, and every turn of the loop over the members of an object or the elements of
  an array, takes one unit; \<open>None\<close> is fuel exhausted or a panic. \<open>parseArray_loop\<close> is the
  loop of \<open>parseArray\<close>, with the variables \<open>h\<close>, \<open>alog\<close>, \<open>multires\<close> and \<open>val\<close> that
  live across its turns (\<open>valp\<close> is where \<open>val\<close> starts in the document), and \<open>Get_c\<close> is
  \<open>Get\<close> up to the context it ends with. In an object, a turn that runs off the end of the
  document looking for a key returns like the test \<open>!ok\<close> of the first turn does: the
  code between does nothing when no byte is left.
\<close>

function (sequential)
  parseObject :: "nat \<Rightarrow> lib \<Rightarrow> parseContext \<Rightarrow> nat \<Rightarrow> string \<Rightarrow> (parseContext \<times> nat \<times> bool) option"
  and parseArray :: "nat \<Rightarrow> lib \<Rightarrow> parseContext \<Rightarrow> nat \<Rightarrow> string \<Rightarrow> (parseContext \<times> nat \<times> bool) option"
  and parseArray_loop ::
    "nat \<Rightarrow> lib \<Rightarrow> parseContext \<Rightarrow> arrayPathResult \<Rightarrow> int \<Rightarrow> nat \<Rightarrow> nat list \<Rightarrow> string \<Rightarrow> string \<Rightarrow> nat
      \<Rightarrow> nat \<Rightarrow> (parseContext \<times> nat \<times> bool) option"
  and Get_c :: "nat \<Rightarrow> lib \<Rightarrow> string \<Rightarrow> string \<Rightarrow> parseContext option"
where
  "parseObject 0 L c i path = None"
| "parseObject (Suc n) L c i path =
     (let rp = parseObjectPath path; json = c_json c
      in if i < length json then
           (case find_key json i of
              ObjectEnd i \<Rightarrow> Some (c, i, False)
            | NoKey i \<Rightarrow> Some (c, i, False)
            | KeyQuote q \<Rightarrow>
                (case parse_key_string json (q + 1) of
                   (i, key, kesc, ok) \<Rightarrow>
                     if \<not> ok then Some (c, i, False)
                     else
                       (let pmatch = match_key L rp key kesc;
                            hit = (pmatch \<and> \<not> o_more rp);
                            i = object_value_start json i
                        in if i < length json then
                             (let ch = json ! i
                              in if ch = CHR 0x22 then
                                   (case parseString json (i + 1) of
                                      None \<Rightarrow> None
                                    | Some (i', val, vesc, ok) \<Rightarrow>
                                        if \<not> ok then Some (c, i', False)
                                        else if hit then
                                          (case hit_string c i val vesc of
                                             None \<Rightarrow> None
                                           | Some c' \<Rightarrow> Some (c', i', True))
                                        else parseObject n L c i' path)
                                 else if ch = CHR ''{'' then
                                   (if pmatch \<and> \<not> hit then
                                      (case parseObject n L c (i + 1) (o_path rp) of
                                         None \<Rightarrow> None
                                       | Some (c', i', hit') \<Rightarrow>
                                           if hit' then Some (c', i', True)
                                           else parseObject n L c' i' path)
                                    else
                                      (case parseSquash json i of
                                         (i', val) \<Rightarrow>
                                           if hit then Some (hit_json c i val, i', True)
                                           else parseObject n L c i' path))
                                 else if ch = CHR ''['' then
                                   (if pmatch \<and> \<not> hit then
                                      (case parseArray n L c (i + 1) (o_path rp) of
                                         None \<Rightarrow> None
                                       | Some (c', i', hit') \<Rightarrow>
                                           if hit' then Some (c', i', True)
                                           else parseObject n L c' i' path)
                                    else
                                      (case parseSquash json i of
                                         (i', val) \<Rightarrow>
                                           if hit then Some (hit_json c i val, i', True)
                                           else parseObject n L c i' path))
                                 else if ch = CHR ''-'' \<or> is_digit ch then
                                   (case parseNumber json i of
                                      (i', val) \<Rightarrow>
                                        if hit then Some (hit_number L c i val, i', True)
                                        else parseObject n L c i' path)
                                 else
                                   (case parseLiteral json i of
                                      (i', val) \<Rightarrow>
                                        if hit then Some (hit_literal c i ch val, i', True)
                                        else parseObject n L c i' path))
                           else Some (c, i, False))))
         else Some (c, i, False))"
| "parseArray 0 L c i path = None"
| "parseArray (Suc n) L c i path =
     (case parseArrayPath path of
        None \<Rightarrow> None
      | Some rp \<Rightarrow>
          (let partidx =
                 (if \<not> arrch rp then
                    (case parseUint (a_part rp) of (m, ok) \<Rightarrow> if \<not> ok then - 1 else sint m)
                  else 0)
           in parseArray_loop n L c rp partidx 0 [] [] [] 0 i))"
| "parseArray_loop 0 L c rp partidx h alog multires val valp i = None"
| "parseArray_loop (Suc n) L c rp partidx h alog multires val valp i =
     (let json = c_json c
      in if i < length json then
           (let pmatch = (\<not> arrch rp \<and> partidx = int h);
                hit = (pmatch \<and> \<not> a_more rp);
                h = h + 1;
                alog = (if alogok rp then alog @ [i] else alog);
                i = array_value_start json i
            in if i < length json then
                 (let ch = json ! i
                  in if ch = CHR 0x22 then
                       (case parseString json (i + 1) of
                          None \<Rightarrow> None
                        | Some (i', val, vesc, ok) \<Rightarrow>
                            if \<not> ok then Some (c, i', False)
                            else if hit \<and> \<not> alogok rp then
                              (case hit_string c i val vesc of
                                 None \<Rightarrow> None
                               | Some c' \<Rightarrow> Some (c', i', True))
                            else parseArray_loop n L c rp partidx h alog multires val i i')
                     else if ch = CHR ''{'' then
                       (if pmatch \<and> \<not> hit then
                          (case parseObject n L c (i + 1) (a_path rp) of
                             None \<Rightarrow> None
                           | Some (c', i', hit') \<Rightarrow>
                               if hit' \<and> \<not> alogok rp then Some (c', i', True)
                               else parseArray_loop n L c' rp partidx h alog multires val valp i')
                        else
                          (case parseSquash json i of
                             (i', val) \<Rightarrow>
                               if q_on (query rp) then
                                 (case Get_c n L val (q_path (query rp)) of
                                    None \<Rightarrow> None
                                  | Some cq \<Rightarrow>
                                      if queryMatches L rp (GetResult cq) then
                                        (case (if a_more rp then
                                                 map_option (\<lambda>cr. (GetResult cr, c_vptr cr))
                                                   (Get_c n L val (a_path rp))
                                               else Some (Result0\<lparr>Raw := val, Type := JSON\<rparr>, Some 0)) of
                                           None \<Rightarrow> None
                                         | Some (res, p) \<Rightarrow>
                                             (if q_all (query rp) then
                                                   parseArray_loop n L c rp partidx h alog
                                                     ((if length multires = 0 then ''[''
                                                       else multires @ '','') @ Raw res)
                                                     val i i'
                                                 else
                                                   Some (c\<lparr>c_value := res,
                                                           c_vptr := map_option (\<lambda>k. i + k) p\<rparr>,
                                                         i', True)))
                                      else parseArray_loop n L c rp partidx h alog multires val i i')
                               else if hit \<and> \<not> alogok rp then Some (hit_json c i val, i', True)
                               else parseArray_loop n L c rp partidx h alog multires val i i'))
                     else if ch = CHR ''['' then
                       (if pmatch \<and> \<not> hit then
                          (case parseArray n L c (i + 1) (a_path rp) of
                             None \<Rightarrow> None
                           | Some (c', i', hit') \<Rightarrow>
                               if hit' \<and> \<not> alogok rp then Some (c', i', True)
                               else parseArray_loop n L c' rp partidx h alog multires val valp i')
                        else
                          (case parseSquash json i of
                             (i', val) \<Rightarrow>
                               if hit \<and> \<not> alogok rp then Some (hit_json c i val, i', True)
                               else parseArray_loop n L c rp partidx h alog multires val i i'))
                     else if ch = CHR ''-'' \<or> is_digit ch then
                       (case parseNumber json i of
                          (i', val) \<Rightarrow>
                            if hit \<and> \<not> alogok rp then Some (hit_number L c i val, i', True)
                            else parseArray_loop n L c rp partidx h alog multires val i i')
                     else if ch = CHR '']'' then
                       (if arrch rp \<and> a_part rp = ''#'' then
                          (if alogok rp then
                             (case those (map (\<lambda>a. if a \<le> length json
                                                     then Get_c n L (drop a json) (alogkey rp)
                                                     else None) alog) of
                                None \<Rightarrow> None
                              | Some cs \<Rightarrow>
                                  Some (c\<lparr>c_value := (c_value c)
                                            \<lparr>Type := JSON,
                                             Raw := ''['' @ join_raw (map GetResult cs) 0 @ '']''\<rparr>,
                                          c_vptr := None\<rparr>,
                                        i + 1, True))
                           else
                             Some (c\<lparr>c_value := (c_value c)
                                       \<lparr>Raw := val, Type := Number,
                                        Num := Finite (of_nat (h - 1))\<rparr>,
                                     c_calcd := True,
                                     c_vptr := (if val = [] then None else Some valp)\<rparr>,
                                   i + 1, True))
                        else
                          Some (if length multires > 0 \<and> \<not> Exists (c_value c)
                                then c\<lparr>c_value := Result0\<lparr>Raw := multires @ '']'', Type := JSON\<rparr>,
                                       c_vptr := None\<rparr>
                                else c,
                                i + 1, False))
                     else
                       (case parseLiteral json i of
                          (i', val) \<Rightarrow>
                            if hit \<and> \<not> alogok rp then Some (hit_literal c i ch val, i', True)
                            else parseArray_loop n L c rp partidx h alog multires val i i'))
               else Some (c, i, False))
         else Some (c, i, False))"
| "Get_c 0 L json path = None"
| "Get_c (Suc n) L json path =
     (let c = \<lparr>c_json = json, c_value = Result0, c_calcd = False, c_vptr = None\<rparr>;
          i = find_open json 0
      in if i < length json then
           (if json ! i = CHR ''{'' then map_option fst (parseObject n L c (i + 1) path)
            else map_option fst (parseArray n L c (i + 1) path))
         else Some c)"
  by pat_completeness auto
termination
  by (relation "measure (\<lambda>x. case x of
          Inl (Inl (n, _)) \<Rightarrow> n | Inl (Inr (n, _)) \<Rightarrow> n
        | Inr (Inl (n, _)) \<Rightarrow> n | Inr (Inr (n, _)) \<Rightarrow> n)") auto

definition Get :: "nat \<Rightarrow> lib \<Rightarrow> string \<Rightarrow> string \<Rightarrow> Result option" where
  "Get n L json path = map_option GetResult (Get_c n L json path)"


section \<open>Parsing a document without a path\<close>

function tonum_loop :: "string \<Rightarrow> nat \<Rightarrow> nat" where
  "tonum_loop json i =
     (if i < length json then
        (if bv (json ! i) \<le> 45 then
           (if bv (json ! i) \<le> 32 \<or> json ! i = CHR '','' then i else tonum_loop json (i + 1))
         else if bv (json ! i) < 93 then tonum_loop json (i + 1)
         else if json ! i = CHR ''e'' \<or> json ! i = CHR ''E'' then tonum_loop json (i + 1)
         else i)
      else i)"
  by pat_completeness auto
termination
  by (relation "measure (\<lambda>(json, i). length json - i)") auto

declare tonum_loop.simps [simp del]

definition tonum :: "lib \<Rightarrow> string \<Rightarrow> string \<times> float64" where
  "tonum L json = (let raw = take (tonum_loop json 1) json in (raw, ParseFloat L raw))"

function tolit_loop :: "string \<Rightarrow> nat \<Rightarrow> nat" where
  "tolit_loop json i =
     (if i < length json then
        (if bv (json ! i) \<le> 97 \<or> bv (json ! i) \<ge> 122 then i else tolit_loop json (i + 1))
      else i)"
  by pat_completeness auto
termination
  by (relation "measure (\<lambda>(json, i). length json - i)") auto

declare tolit_loop.simps [simp del]

definition tolit :: "string \<Rightarrow> string" where
  "tolit json = take (tolit_loop json 1) json"

text \<open>
  \<open>tostr\<close>, on a string that starts with a quote. \<open>tostr_esc\<close> is its inner loop, which
  stops at the closing quote or at the end; \<open>tostr_loop\<close> is the outer one.
\<close>

function tostr_esc :: "string \<Rightarrow> nat \<Rightarrow> nat" where
  "tostr_esc json i =
     (if i < length json then
        (if bv (json ! i) > 92 then tostr_esc json (i + 1)
         else if json ! i = CHR 0x22 then
           (if json ! (i - 1) = CHR 0x5C \<and> even (count_bs json 0 (i - 2))
            then tostr_esc json (i + 1)
            else i)
         else tostr_esc json (i + 1))
      else i)"
  by pat_completeness auto
termination
  by (relation "measure (\<lambda>(json, i). length json - i)") auto

declare tostr_esc.simps [simp del]

function tostr_loop :: "string \<Rightarrow> nat \<Rightarrow> string \<times> string" where
  "tostr_loop json i =
     (if i < length json then
        (if bv (json ! i) > 92 then tostr_loop json (i + 1)
         else if json ! i = CHR 0x22 then (take (i + 1) json, substr json 1 i)
         else if json ! i = CHR 0x5C then
           (let i = tostr_esc json (i + 1)
            in (if i + 1 < length json then take (i + 1) json else take i json,
                unescape (substr json 1 i)))
         else tostr_loop json (i + 1))
      else (json, drop 1 json))"
  by pat_completeness auto
termination
  by (relation "measure (\<lambda>(json, i). length json - i)") auto

declare tostr_loop.simps [simp del]

definition tostr :: "string \<Rightarrow> string \<times> string" where
  "tostr json = tostr_loop json 1"

function Parse_loop :: "lib \<Rightarrow> string \<Rightarrow> nat \<Rightarrow> Result" where
  "Parse_loop L json i =
     (if i < length json then
        (let c = json ! i
         in if c = CHR ''{'' \<or> c = CHR ''['' then Result0\<lparr>Type := JSON, Raw := drop i json\<rparr>
            else if bv c \<le> 32 then Parse_loop L json (i + 1)
            else if c = CHR ''n'' then Result0\<lparr>Type := Null, Raw := tolit (drop i json)\<rparr>
            else if c = CHR ''t'' then Result0\<lparr>Type := True_T, Raw := tolit (drop i json)\<rparr>
            else if c = CHR ''f'' then Result0\<lparr>Type := False_T, Raw := tolit (drop i json)\<rparr>
            else if c = CHR 0x22 then
              (case tostr (drop i json) of
                 (raw, str) \<Rightarrow> Result0\<lparr>Type := String, Raw := raw, Str := str\<rparr>)
            else if is_digit c \<or> c = CHR ''-'' then
              (case tonum L (drop i json) of
                 (raw, num) \<Rightarrow> Result0\<lparr>Type := Number, Raw := raw, Num := num\<rparr>)
            else Result0)
      else Result0)"
  by pat_completeness auto
termination
  by (relation "measure (\<lambda>(L, json, i). length json - i)") auto

declare Parse_loop.simps [simp del]

definition Parse :: "lib \<Rightarrow> string \<Rightarrow> Result" where
  "Parse L json = Parse_loop L json 0"

section \<open>Arrays and maps of a result\<close>

text \<open>
  \<open>arrayOrMap\<close> with \<open>valueize\<close> false, as \<open>Array\<close> and \<open>Map\<close> call it. The map \<open>o\<close> is a
  partial function; the byte \<open>vc\<close> is 0 when the caller leaves the kind open.
\<close>

record arrayOrMapResult =
  r_a :: "Result list"
  r_o :: "string \<rightharpoonup> Result"
  r_vc :: char

datatype open_scan = Opened nat char | Refused | Ended nat

function arrayOrMap_open :: "string \<Rightarrow> char \<Rightarrow> nat \<Rightarrow> open_scan" where
  "arrayOrMap_open json vc i =
     (if i < length json then
        (if vc = CHR 0x00 then
           (if json ! i = CHR ''{'' \<or> json ! i = CHR ''['' then Opened (i + 1) (json ! i)
            else if bv (json ! i) > 32 then Refused
            else arrayOrMap_open json vc (i + 1))
         else
           (if json ! i = vc then Opened (i + 1) vc
            else if bv (json ! i) > 32 then Refused
            else arrayOrMap_open json vc (i + 1)))
      else Ended i)"
  by pat_completeness auto
termination
  by (relation "measure (\<lambda>(json, vc, i). length json - i)") auto

declare arrayOrMap_open.simps [simp del]

text \<open>
  One value of the main loop: the fields of \<open>value\<close> that the case of the switch
  assigns (the others keep what the value before left in them), or \<open>None\<close> for the
  \<open>continue\<close> of the default case.
\<close>

definition arrayOrMap_value :: "lib \<Rightarrow> string \<Rightarrow> nat \<Rightarrow> Result \<Rightarrow> Result option" where
  "arrayOrMap_value L json i v =
     (let c = json ! i
      in if c = CHR ''{'' \<or> c = CHR ''['' then Some (v\<lparr>Type := JSON, Raw := squash (drop i json)\<rparr>)
         else if c = CHR ''n'' then Some (v\<lparr>Type := Null, Raw := tolit (drop i json)\<rparr>)
         else if c = CHR ''t'' then Some (v\<lparr>Type := True_T, Raw := tolit (drop i json)\<rparr>)
         else if c = CHR ''f'' then Some (v\<lparr>Type := False_T, Raw := tolit (drop i json)\<rparr>)
         else if c = CHR 0x22 then
           (case tostr (drop i json) of
              (raw, str) \<Rightarrow> Some (v\<lparr>Type := String, Raw := raw, Str := str\<rparr>))
         else if is_digit c \<or> c = CHR ''-'' then
           (case tonum L (drop i json) of
              (raw, num) \<Rightarrow> Some (v\<lparr>Type := Number, Raw := raw, Num := num\<rparr>))
         else None)"

lemma tonum_loop_ge: "i \<le> tonum_loop json i"
proof (induction json i rule: tonum_loop.induct)
  case (1 json i)
  have *: "Suc i \<le> x \<Longrightarrow> i \<le> x" for x by simp
  from 1 show ?case
    by (subst tonum_loop.simps) (auto intro: *)
qed

lemma tolit_loop_ge: "i \<le> tolit_loop json i"
proof (induction json i rule: tolit_loop.induct)
  case (1 json i)
  have *: "Suc i \<le> x \<Longrightarrow> i \<le> x" for x by simp
  from 1 show ?case
    by (subst tolit_loop.simps) (auto intro: *)
qed

lemma parseSquash_loop_ge: "i \<le> parseSquash_loop json depth i"
proof (induction json depth i rule: parseSquash_loop.induct)
  case (1 json depth i)
  have *: "Suc i \<le> x \<Longrightarrow> i \<le> x" for x by simp
  have **: "Suc (skip_str json (Suc i) (Suc i)) \<le> x \<Longrightarrow> i \<le> x" for x
    using skip_str_ge [of "Suc i" json "Suc i"] by simp
  from 1 show ?case
    by (subst parseSquash_loop.simps) (auto intro: * ** simp: Let_def)
qed

lemma tostr_loop_raw_nonempty: "json \<noteq> [] \<Longrightarrow> 0 < i \<Longrightarrow> fst (tostr_loop json i) \<noteq> []"
proof (induction json i rule: tostr_loop.induct)
  case (1 json i)
  then show ?case
    by (subst tostr_loop.simps) (auto simp: Let_def)
qed

lemma arrayOrMap_value_nonempty:
  assumes "arrayOrMap_value L json i v = Some v'" and "i < length json"
  shows "0 < length (Raw v')"
proof -
  have d: "drop i json \<noteq> []" using assms(2) by simp
  have n: "0 < length (take (tonum_loop (drop i json) 1) (drop i json))"
    using tonum_loop_ge [of 1 "drop i json"] d by (cases "drop i json") auto
  have l: "0 < length (take (tolit_loop (drop i json) 1) (drop i json))"
    using tolit_loop_ge [of 1 "drop i json"] d by (cases "drop i json") auto
  have q: "0 < length (substr (drop i json) 0 (parseSquash_loop (drop i json) 1 1))"
    using parseSquash_loop_ge [of 1 "drop i json" 1] d
    by (cases "drop i json") (auto simp: substr_def)
  have t: "0 < length (fst (tostr (drop i json)))"
    using tostr_loop_raw_nonempty [of "drop i json" 1] d by (simp add: tostr_def)
  from assms(1) n l q t show ?thesis
    by (auto simp: arrayOrMap_value_def Let_def tonum_def tolit_def squash_def
        split: if_splits prod.splits)
qed

text \<open>
  The main loop: \<open>count\<close> and \<open>key\<close> tell keys from values in an object. \<open>Raw\<close> is
  never empty, so \<open>i += len(value.Raw) - 1\<close> does not step back.
\<close>

function arrayOrMap_loop ::
  "lib \<Rightarrow> string \<Rightarrow> arrayOrMapResult \<Rightarrow> Result \<Rightarrow> nat \<Rightarrow> Result \<Rightarrow> nat \<Rightarrow> arrayOrMapResult" where
  "arrayOrMap_loop L json r v count key i =
     (if i < length json then
        (if bv (json ! i) \<le> 32 then arrayOrMap_loop L json r v count key (i + 1)
         else if json ! i = CHR '']'' \<or> json ! i = CHR ''}'' then r
         else
           (case arrayOrMap_value L json i v of
              None \<Rightarrow> arrayOrMap_loop L json r v count key (i + 1)
            | Some v' \<Rightarrow>
                (let i' = i + length (Raw v') - 1
                 in if r_vc r = CHR ''{'' then
                      (if count mod 2 = 0 then arrayOrMap_loop L json r v' (count + 1) v' (i' + 1)
                       else arrayOrMap_loop L json (r\<lparr>r_o := (r_o r)(Str key \<mapsto> v')\<rparr>) v'
                              (count + 1) key (i' + 1))
                    else arrayOrMap_loop L json (r\<lparr>r_a := r_a r @ [v']\<rparr>) v' count key (i' + 1))))
      else r)"
  by pat_completeness auto
termination
  apply (relation "measure (\<lambda>(L, json, r, v, count, key, i). length json - i)")
       apply auto
  subgoal for L json r v count i x2
    using arrayOrMap_value_nonempty [of L json i v x2] by (cases "Raw x2") auto
  subgoal for L json r v count i x2
    using arrayOrMap_value_nonempty [of L json i v x2] by (cases "Raw x2") auto
  subgoal for L json r v i x2
    using arrayOrMap_value_nonempty [of L json i v x2] by (cases "Raw x2") auto
  done

declare arrayOrMap_loop.simps [simp del]

definition arrayOrMap :: "lib \<Rightarrow> char \<Rightarrow> Result \<Rightarrow> arrayOrMapResult" where
  "arrayOrMap L vc t =
     (let json = Raw t;
          r0 = \<lparr>r_a = [], r_o = Map.empty, r_vc = CHR 0x00\<rparr>
      in case arrayOrMap_open json vc 0 of
           Refused \<Rightarrow> r0
         | Opened i c \<Rightarrow> arrayOrMap_loop L json (r0\<lparr>r_vc := c\<rparr>) Result0 0 Result0 i
         | Ended i \<Rightarrow> r0\<lparr>r_vc := vc\<rparr>)"

definition Array :: "lib \<Rightarrow> Result \<Rightarrow> Result list" where
  "Array L t =
     (if \<not> Exists t then []
      else if Type t \<noteq> JSON then [t]
      else r_a (arrayOrMap L (CHR ''['') t))"

definition Map_res :: "lib \<Rightarrow> Result \<Rightarrow> (string \<rightharpoonup> Result)" where
  "Map_res L t = (if Type t \<noteq> JSON then Map.empty else r_o (arrayOrMap L (CHR ''{'') t))"

section \<open>Many paths at once\<close>

lemma parseLiteral_loop_ge: "i \<le> parseLiteral_loop json i"
proof (induction json i rule: parseLiteral_loop.induct)
  case (1 json i)
  have *: "Suc i \<le> x \<Longrightarrow> i \<le> x" for x by simp
  from 1 show ?case
    by (subst parseLiteral_loop.simps) (auto intro: *)
qed

text \<open>
  \<open>parseAny\<close>: the index after the value, the result when \<open>hit\<close> is set, and \<open>ok\<close>. A
  literal that is not a hit does not return: the loop goes on after it.
\<close>

function parseAny :: "lib \<Rightarrow> string \<Rightarrow> nat \<Rightarrow> bool \<Rightarrow> (nat \<times> Result \<times> bool) option" where
  "parseAny L json i hit =
     (if i < length json then
        (let c = json ! i
         in if c = CHR ''{'' \<or> c = CHR ''['' then
              (case parseSquash json i of
                 (i', val) \<Rightarrow>
                   Some (i', if hit then Result0\<lparr>Raw := val, Type := JSON\<rparr> else Result0, True))
            else if bv c \<le> 32 then parseAny L json (i + 1) hit
            else if c = CHR 0x22 then
              (case parseString json (i + 1) of
                 None \<Rightarrow> None
               | Some (i', val, vesc, ok) \<Rightarrow>
                   if \<not> ok then Some (i', Result0, False)
                   else if hit then
                     (case slice val 1 (length val - 1) of
                        None \<Rightarrow> None
                      | Some inner \<Rightarrow>
                          Some (i', Result0\<lparr>Type := String, Raw := val,
                                            Str := (if vesc then unescape inner else inner)\<rparr>, True))
                   else Some (i', Result0, True))
            else if c = CHR ''-'' \<or> is_digit c then
              (case parseNumber json i of
                 (i', val) \<Rightarrow>
                   Some (i', if hit then Result0\<lparr>Raw := val, Type := Number, Num := ParseFloat L val\<rparr>
                             else Result0, True))
            else if c = CHR ''t'' \<or> c = CHR ''f'' \<or> c = CHR ''n'' then
              (case parseLiteral json i of
                 (i', val) \<Rightarrow>
                   if hit then
                     Some (i', Result0\<lparr>Raw := val,
                                       Type := (if c = CHR ''t'' then True_T
                                                else if c = CHR ''f'' then False_T else Null)\<rparr>, True)
                   else parseAny L json (i' + 1) hit)
            else parseAny L json (i + 1) hit)
      else Some (i, Result0, False))"
  by pat_completeness auto
termination
  apply (relation "measure (\<lambda>(L, json, i, hit). length json - i)")
     apply (auto simp: parseLiteral_def Let_def)
  subgoal for json i
    using parseLiteral_loop_ge [of "Suc i" json] by simp
  subgoal for json i
    using parseLiteral_loop_ge [of "Suc i" json] by simp
  subgoal for json i
    using parseLiteral_loop_ge [of "Suc i" json] by simp
  done

declare parseAny.simps [simp del]

definition simple_byte :: "nat \<Rightarrow> nat \<Rightarrow> char \<Rightarrow> bool" where
  "simple_byte i fi c =
     ((97 \<le> bv c \<and> bv c \<le> 122) \<or> (65 \<le> bv c \<and> bv c \<le> 90) \<or> c = CHR ''_'' \<or> c = CHR ''$''
      \<or> (i > fi \<and> is_digit c))"

function simple_path :: "string \<Rightarrow> nat \<Rightarrow> nat \<Rightarrow> bool" where
  "simple_path path i fi =
     (if i < length path then
        (if path ! i = CHR ''.'' then simple_path path (i + 1) (i + 1)
         else if simple_byte i fi (path ! i) then simple_path path (i + 1) fi
         else False)
      else True)"
  by pat_completeness auto
termination
  by (relation "measure (\<lambda>(path, i, fi). length path - i)") auto

declare simple_path.simps [simp del]

definition areSimplePaths :: "string list \<Rightarrow> bool" where
  "areSimplePaths paths = list_all (\<lambda>path. simple_path path 0 0) paths"

text \<open>
  The arrays \<open>completed\<close>, \<open>matches\<close> and \<open>results\<close> that \<open>parseGetMany\<close> updates, one
  entry for each path, and the variables of one key.
\<close>

record many_state =
  completed :: "bool list"
  matches :: "64 word list"
  results :: "Result list"

record key_state =
  k_i :: nat
  usedPaths :: nat
  hasMatch :: bool
  parsedVal :: bool
  valOrgIndex :: nat
  valPathIndex :: nat

datatype key_match = NoMatch | MatchAtEnd | MatchNotAtEnd

text \<open>The comparison of a key with the part of a path that starts at \<open>kplen\<close>.\<close>

definition match_path :: "string \<Rightarrow> nat \<Rightarrow> string \<Rightarrow> key_match" where
  "match_path path kplen key =
     (if int (length path) - int kplen \<ge> int (length key) then
        (if take (length key) (drop kplen path) \<noteq> key then NoMatch
         else
           (let i = kplen + length key
            in if i < length path \<and> path ! i = CHR ''.'' then MatchNotAtEnd
               else if length path \<le> length key \<or> kplen \<noteq> 0 then
                 (if length path \<noteq> i then NoMatch else MatchAtEnd)
               else NoMatch))
      else NoMatch)"

datatype paths_scan = PathsFault nat | PathsDone key_state many_state

text \<open>The loop over the paths for one key, from the path \<open>j\<close>.\<close>

function match_paths ::
  "lib \<Rightarrow> string \<Rightarrow> nat \<Rightarrow> nat \<Rightarrow> string \<Rightarrow> string list \<Rightarrow> nat \<Rightarrow> key_state \<Rightarrow> many_state
    \<Rightarrow> paths_scan option" where
  "match_paths L json level kplen key paths j ks ms =
     (if j < length paths then
        (if completed ms ! j then
           match_paths L json level kplen key paths (j + 1) (ks\<lparr>usedPaths := usedPaths ks + 1\<rparr>) ms
         else if level > 0 \<and> \<not> bit (matches ms ! j) (level - 1) then
           match_paths L json level kplen key paths (j + 1) (ks\<lparr>usedPaths := usedPaths ks + 1\<rparr>) ms
         else
           (case match_path (paths ! j) kplen key of
              NoMatch \<Rightarrow> match_paths L json level kplen key paths (j + 1) ks ms
            | MatchAtEnd \<Rightarrow>
                (if \<not> parsedVal ks then
                   (case parseAny L json (k_i ks) True of
                      None \<Rightarrow> None
                    | Some (i', res, ok) \<Rightarrow>
                        if \<not> ok then Some (PathsFault i')
                        else
                          match_paths L json level kplen key paths (j + 1)
                            (ks\<lparr>usedPaths := usedPaths ks + 1, valOrgIndex := k_i ks, k_i := i',
                                parsedVal := True, valPathIndex := j\<rparr>)
                            (ms\<lparr>results := (results ms)[j := res],
                                completed := (completed ms)[j := True]\<rparr>))
                 else
                   match_paths L json level kplen key paths (j + 1)
                     (ks\<lparr>usedPaths := usedPaths ks + 1\<rparr>)
                     (ms\<lparr>results := (results ms)[j := results ms ! valPathIndex ks],
                         completed := (completed ms)[j := True]\<rparr>))
            | MatchNotAtEnd \<Rightarrow>
                match_paths L json level kplen key paths (j + 1)
                  (ks\<lparr>usedPaths := usedPaths ks + 1, hasMatch := True\<rparr>)
                  (ms\<lparr>matches := (matches ms)[j := or (matches ms ! j) (push_bit level 1)]\<rparr>)))
      else Some (PathsDone ks ms))"
  by pat_completeness auto
termination
  by (relation "measure (\<lambda>(L, json, level, kplen, key, paths, j, ks, ms). length paths - j)") auto

declare match_paths.simps [simp del]

text \<open>The loop that skips the colon before the value of a matched key.\<close>

function skip_colon :: "string \<Rightarrow> nat \<Rightarrow> nat" where
  "skip_colon json i =
     (if i < length json then
        (if bv (json ! i) \<le> 32 \<or> json ! i = CHR '':'' then skip_colon json (i + 1) else i)
      else i)"
  by pat_completeness auto
termination
  by (relation "measure (\<lambda>(json, i). length json - i)") auto

declare skip_colon.simps [simp del]

function find_brace :: "string \<Rightarrow> nat \<Rightarrow> nat" where
  "find_brace json i =
     (if i < length json then (if json ! i = CHR ''{'' then i else find_brace json (i + 1)) else i)"
  by pat_completeness auto
termination
  by (relation "measure (\<lambda>(json, i). length json - i)") auto

declare find_brace.simps [simp del]

text \<open>
  \<open>parseGetMany\<close>, with fuel: one unit for each key of an object and for each object it
  enters. It returns the index, \<open>ok\<close> and the arrays.
\<close>

fun parseGetMany ::
  "nat \<Rightarrow> lib \<Rightarrow> string \<Rightarrow> nat \<Rightarrow> nat \<Rightarrow> nat \<Rightarrow> string list \<Rightarrow> many_state
    \<Rightarrow> (nat \<times> bool \<times> many_state) option" where
  "parseGetMany 0 L json i level kplen paths ms = None"
| "parseGetMany (Suc n) L json i level kplen paths ms =
     (if level > 62 then Some (i, False, ms)
      else
        (case find_key json i of
           ObjectEnd i \<Rightarrow> Some (i, True, ms)
         | NoKey i \<Rightarrow> Some (i, True, ms)
         | KeyQuote q \<Rightarrow>
             (case parseString json (q + 1) of
                None \<Rightarrow> None
              | Some (i, val, vesc, ok) \<Rightarrow>
                  if \<not> ok then Some (i, False, ms)
                  else
                    (case slice val 1 (length val - 1) of
                       None \<Rightarrow> None
                     | Some inner \<Rightarrow>
                         (let key = (if vesc then unescape inner else inner)
                          in if CHR ''.'' \<in> set key then
                               (case parseAny L json i False of
                                  None \<Rightarrow> None
                                | Some (i, res, ok) \<Rightarrow>
                                    if \<not> ok then Some (i, False, ms)
                                    else parseGetMany n L json (i + 1) level kplen paths ms)
                             else
                               (case match_paths L json level kplen key paths 0
                                       \<lparr>k_i = i, usedPaths = 0, hasMatch = False, parsedVal = False,
                                        valOrgIndex = 0, valPathIndex = 0\<rparr> ms of
                                  None \<Rightarrow> None
                                | Some (PathsFault i) \<Rightarrow> Some (i, False, ms)
                                | Some (PathsDone ks ms) \<Rightarrow>
                                    (let i = k_i ks
                                     in if \<not> hasMatch ks \<and> i < length json \<and> json ! i = CHR ''}''
                                        then Some (i + 1, True, ms)
                                        else
                                          (case
                                             (if \<not> parsedVal ks then
                                                (if hasMatch ks then
                                                   (let i = skip_colon json i
                                                    in if i < length json then
                                                         (if json ! i = CHR ''{'' then
                                                            parseGetMany n L json (i + 1) (level + 1)
                                                              (kplen + length key + 1) paths ms
                                                          else
                                                            map_option (\<lambda>(i, res, ok). (i, ok, ms))
                                                              (parseAny L json i False))
                                                       else Some (i, True, ms))
                                                 else
                                                   map_option (\<lambda>(i, res, ok). (i, ok, ms))
                                                     (parseAny L json i False))
                                              else if hasMatch ks
                                                   \<and> length (Raw (results ms ! valPathIndex ks)) > 0
                                                   \<and> Raw (results ms ! valPathIndex ks) ! 0 = CHR ''{''
                                              then
                                                parseGetMany n L json
                                                  (find_brace json (valOrgIndex ks) + 1) (level + 1)
                                                  (kplen + length key + 1) paths ms
                                              else Some (i, True, ms)) of
                                             None \<Rightarrow> None
                                           | Some (i, ok, ms) \<Rightarrow>
                                               if \<not> ok then Some (i, False, ms)
                                               else if usedPaths ks = length paths then
                                                 Some (if level > 0 \<and> i < length json
                                                       then fst (parseSquash json i) else i,
                                                       True, ms)
                                               else parseGetMany n L json (i + 1) level kplen paths ms))))))))"

text \<open>
  \<open>getMany8\<close> to \<open>getMany512\<close> differ in the capacity of their arrays only: \<open>getManyN\<close>.
\<close>

definition getManyN :: "nat \<Rightarrow> lib \<Rightarrow> string \<Rightarrow> nat \<Rightarrow> string list \<Rightarrow> (Result list \<times> bool) option" where
  "getManyN n L json i paths =
     map_option (\<lambda>(i, ok, ms). (results ms, ok))
       (parseGetMany n L json i 0 0 paths
          \<lparr>completed = replicate (length paths) False,
           matches = replicate (length paths) 0,
           results = replicate (length paths) Result0\<rparr>)"

text \<open>The loop of \<open>GetMany\<close> that looks for the brace of the top object.\<close>

function locate_object :: "string \<Rightarrow> nat \<Rightarrow> nat option" where
  "locate_object json i =
     (if i < length json then
        (if json ! i = CHR ''{'' then Some (i + 1)
         else if bv (json ! i) \<le> 32 then locate_object json (i + 1)
         else None)
      else Some i)"
  by pat_completeness auto
termination
  by (relation "measure (\<lambda>(json, i). length json - i)") auto

declare locate_object.simps [simp del]

text \<open>The loop at the label \<open>fallback\<close>: \<open>Get\<close> for each path, in order.\<close>

fun fallback :: "nat \<Rightarrow> lib \<Rightarrow> string \<Rightarrow> string list \<Rightarrow> Result list option" where
  "fallback n L json [] = Some []"
| "fallback n L json (p # ps) =
     (case Get n L json p of
        None \<Rightarrow> None
      | Some r \<Rightarrow> (case fallback n L json ps of None \<Rightarrow> None | Some rs \<Rightarrow> Some (r # rs)))"

definition GetMany :: "nat \<Rightarrow> lib \<Rightarrow> string \<Rightarrow> string list \<Rightarrow> Result list option" where
  "GetMany n L json paths =
     (if length paths < 4 then fallback n L json paths
      else if length paths > 512 then fallback n L json paths
      else if \<not> areSimplePaths paths then fallback n L json paths
      else
        (case locate_object json 0 of
           None \<Rightarrow> fallback n L json paths
         | Some i \<Rightarrow>
             (case getManyN n L json i paths of
                None \<Rightarrow> None
              | Some (rs, ok) \<Rightarrow> if \<not> ok then fallback n L json paths else Some rs)))"

section \<open>Scalars at the top of a document\<close>

text \<open>The first byte of a document above the space, and the type of the scalar it starts.\<close>

definition first_byte :: "string \<Rightarrow> char option" where
  "first_byte json = (case dropWhile (\<lambda>c. bv c \<le> 32) json of [] \<Rightarrow> None | c # cs \<Rightarrow> Some c)"

definition scalar_type :: "char \<Rightarrow> Type option" where
  "scalar_type c =
     (if c = CHR 0x22 then Some String
      else if c = CHR ''-'' \<or> is_digit c then Some Number
      else if c = CHR ''t'' then Some True_T
      else if c = CHR ''f'' then Some False_T
      else if c = CHR ''n'' then Some Null
      else None)"

text \<open>
  The bytes that \<open>tonum\<close> reads on after the first one: digits, signs, the point and the
  letter of the exponent.
\<close>

definition number_byte :: "char \<Rightarrow> bool" where
  "number_byte c = (is_digit c \<or> c \<in> set ''+-.eE'')"

section \<open>The validity scanner on concrete inputs\<close>

text \<open>
  C4. \<open>Valid\<close> is meant to accept the strict grammar only, with exactly one comma between
  two members of an object. After a comma, \<open>validobject\<close> skips every byte up to the next
  quote, whatever it is, so the input \<open>{"a":1,,"b":2}\<close> with two commas is accepted.
\<close>

theorem Valid_accepts_double_comma: \<open>Valid 20 ''{"a":1,,"b":2}'' = Some True\<close>
  by code_simp

lemma Valid_rejects_trailing_comma: \<open>Valid 20 ''{"a":"b",}'' = Some False\<close>
  by code_simp

lemma Valid_rejects_leading_zero: \<open>Valid 20 ''-00'' = Some False\<close>
  by code_simp

lemma Valid_accepts_comma_garbage: \<open>Valid 40 ''[{"a":1,},{"b":2}]'' = Some True\<close>
  by code_simp

section \<open>Comparing a query's value: the operator \<open>!=\<close> on numbers\<close>

text \<open>
  C2. On a Number, the operator \<open>!=\<close> should match exactly when the element's number
  differs from the parsed literal. The source returns \<open>value.Num == rpvn\<close> in that
  branch: the query \<open>!= 1\<close> does not match the number 2 and matches the number 1.
\<close>

theorem queryMatches_ne_number_is_eq:
  "queryMatches lib0
     (arrayPathResult0\<lparr>query := \<lparr>q_on = True, q_path = ''a'', q_op = ''!='', q_value = ''1'',
                                  q_all = False\<rparr>\<rparr>)
     \<lparr>Type = Number, Raw = ''2'', Str = [], Num = Finite 2, Index = 0\<rparr> = False \<and>
   queryMatches lib0
     (arrayPathResult0\<lparr>query := \<lparr>q_on = True, q_path = ''a'', q_op = ''!='', q_value = ''1'',
                                  q_all = False\<rparr>\<rparr>)
     \<lparr>Type = Number, Raw = ''1'', Str = [], Num = Finite 1, Index = 0\<rparr> = True"
  by (simp add: queryMatches_def query_rpv_def arrayPathResult0_def lib0_def atof_def
      is_digit_def bv_def float64_of_int_def rne53_def bitlen.simps)

lemma queryMatches_ne_number:
  "Type v = Number \<Longrightarrow> q_op (query rp) = ''!='' \<Longrightarrow>
     queryMatches L rp v = feq (Num v) (ParseFloat L (query_rpv rp))"
  by (simp add: queryMatches_def Let_def)

section \<open>Integer accessors: lossless integers\<close>

lemma bv_char_of: "n < 256 \<Longrightarrow> bv (char_of n) = n"
  by (simp add: bv_def)

lemma parseUint_loop_snoc:
  "parseUint_loop (xs @ [c]) acc =
     (case parseUint_loop xs acc of
        (m, ok) \<Rightarrow> if ok \<and> is_digit c then (m * 10 + of_nat (bv c - 48), True) else (0, False))"
  by (induction xs arbitrary: acc) auto

lemma parseUint_loop_dec_nat: "parseUint_loop (dec_nat n) 0 = (of_nat n, True)"
proof (induction n rule: dec_nat.induct)
  case (1 n)
  show ?case
  proof (cases "n < 10")
    case True
    then show ?thesis by (subst dec_nat.simps) (simp add: is_digit_def bv_char_of)
  next
    case False
    have d: "n mod 10 < 10" by simp
    have e: "(of_nat (n div 10) * 10 + of_nat (n mod 10) :: 64 word) = of_nat n"
      by (metis div_mult_mod_eq of_nat_add of_nat_mult of_nat_numeral)
    from False 1 d e show ?thesis
      by (subst dec_nat.simps) (simp add: parseUint_loop_snoc is_digit_def bv_char_of)
  qed
qed

lemma dec_nat_nonempty: "dec_nat n \<noteq> []"
  by (subst dec_nat.simps) simp

lemma dec_nat_hd_digit: "is_digit (hd (dec_nat n))"
proof (induction n rule: dec_nat.induct)
  case (1 n)
  show ?case
  proof (cases "n < 10")
    case True
    then show ?thesis by (subst dec_nat.simps) (simp add: is_digit_def bv_char_of)
  next
    case False
    with 1 show ?thesis
      by (subst dec_nat.simps) (simp add: dec_nat_nonempty)
  qed
qed

lemma dec_nat_not_minus: "dec_nat n ! 0 \<noteq> CHR ''-''"
proof -
  have "is_digit (dec_nat n ! 0)"
    using dec_nat_hd_digit [of n] dec_nat_nonempty [of n] by (simp add: hd_conv_nth)
  then show ?thesis by (auto simp: is_digit_def bv_def)
qed

lemma parseUint_dec: "0 \<le> n \<Longrightarrow> parseUint (dec n) = (word_of_int n, True)"
  by (simp add: parseUint_def dec_def dec_nat_nonempty parseUint_loop_dec_nat of_nat_nat)

lemma parseInt_dec: "parseInt (dec n) = (word_of_int n, True)"
proof (cases "n < 0")
  case True
  then have "(of_nat (nat (- n)) :: 64 word) * (- 1) = word_of_int n"
    by (simp add: of_nat_nat)
  with True show ?thesis
    by (simp add: parseInt_def dec_def dec_nat_nonempty parseUint_loop_dec_nat)
next
  case False
  then show ?thesis
    using dec_nat_not_minus [of "nat n"]
    by (simp add: parseInt_def dec_def dec_nat_nonempty parseUint_loop_dec_nat Let_def of_nat_nat)
qed

lemma bitlen_bounds: "n < 2 ^ bitlen n \<and> (0 < n \<longrightarrow> 2 ^ (bitlen n - 1) \<le> n)"
proof (induction n rule: bitlen.induct)
  case (1 n)
  show ?case
  proof (cases "n = 0")
    case True
    then show ?thesis by simp
  next
    case False
    with 1 have ih: "n div 2 < 2 ^ bitlen (n div 2)"
      "0 < n div 2 \<longrightarrow> 2 ^ (bitlen (n div 2) - 1) \<le> n div 2" by auto
    have b: "bitlen n = Suc (bitlen (n div 2))" using False by (subst bitlen.simps) simp
    have u: "n < 2 ^ bitlen n" using ih(1) b by simp
    have l: "2 ^ (bitlen n - 1) \<le> n"
    proof (cases "n div 2 = 0")
      case True
      then have "bitlen (n div 2) = 0" by (simp add: bitlen.simps)
      with b False show ?thesis by simp
    next
      case F2: False
      then have "2 ^ (bitlen (n div 2) - 1) \<le> n div 2" using ih(2) by simp
      moreover have "bitlen (n div 2) > 0" using F2 by (subst bitlen.simps) simp
      ultimately have "2 * 2 ^ (bitlen (n div 2) - 1) \<le> n" by arith
      moreover have "(2::nat) * 2 ^ (bitlen (n div 2) - 1) = 2 ^ bitlen (n div 2)"
        using \<open>bitlen (n div 2) > 0\<close> by (cases "bitlen (n div 2)") auto
      ultimately show ?thesis using b by simp
    qed
    from u l show ?thesis by simp
  qed
qed

lemma rne53_small: "n < 2 ^ 53 \<Longrightarrow> rne53 n = n"
proof -
  assume a: "n < 2 ^ 53"
  have "bitlen n \<le> 53"
  proof (rule ccontr)
    assume "\<not> bitlen n \<le> 53"
    then have b: "54 \<le> bitlen n" by simp
    then have "0 < n" by (cases "n = 0") (auto simp: bitlen.simps)
    then have "2 ^ (bitlen n - 1) \<le> n" using bitlen_bounds by blast
    moreover have "(2::nat) ^ 53 \<le> 2 ^ (bitlen n - 1)"
      using b by (intro power_increasing) auto
    ultimately show False using a by simp
  qed
  then show ?thesis by (simp add: rne53_def)
qed

lemma rne53_large: "2 ^ 53 \<le> n \<Longrightarrow> 2 ^ 53 \<le> rne53 n"
proof -
  assume a: "2 ^ 53 \<le> n"
  define e where "e = bitlen n - 53"
  show ?thesis
  proof (cases "e = 0")
    case True
    then show ?thesis using a by (simp add: rne53_def e_def)
  next
    case False
    then have bl: "bitlen n = e + 53" by (simp add: e_def)
    have "0 < n" using a by (cases "n = 0") auto
    then have "2 ^ (e + 52) \<le> n" using bitlen_bounds [of n] bl by (simp add: add.commute)
    then have "2 ^ 52 * 2 ^ e \<le> n" by (simp add: power_add mult.commute)
    then have q: "2 ^ 52 \<le> n div 2 ^ e"
      by (simp add: less_eq_div_iff_mult_less_eq)
    have e1: "(2::nat) \<le> 2 ^ e" using False by (cases e) auto
    have "(2::nat) ^ 53 = 2 ^ 52 * 2" by simp
    also have "\<dots> \<le> (n div 2 ^ e) * 2 ^ e" using q e1 by (rule mult_le_mono)
    finally have m: "2 ^ 53 \<le> (n div 2 ^ e) * 2 ^ e" .
    have m2: "(n div 2 ^ e) * 2 ^ e \<le> (n div 2 ^ e + 1) * 2 ^ e" by simp
    from m m2 have m3: "2 ^ 53 \<le> (n div 2 ^ e + 1) * 2 ^ e" by (rule order_trans)
    show ?thesis
      using False m m3 unfolding rne53_def Let_def e_def [symmetric]
      by (auto simp del: One_nat_def)
  qed
qed

definition rnd :: "int \<Rightarrow> int" where
  "rnd n = (if n < 0 then - int (rne53 (nat (- n))) else int (rne53 (nat n)))"

lemma float64_of_int_rnd: "float64_of_int n = Finite (of_int (rnd n))"
  by (simp add: float64_of_int_def rnd_def)

lemma rnd_small: "\<bar>n\<bar> < 2 ^ 53 \<Longrightarrow> rnd n = n"
  using rne53_small [of "nat (- n)"] rne53_small [of "nat n"]
  by (auto simp: rnd_def nat_less_iff)

lemma rnd_large: "2 ^ 53 \<le> \<bar>n\<bar> \<Longrightarrow> 2 ^ 53 \<le> \<bar>rnd n\<bar>"
  using rne53_large [of "nat (- n)"] rne53_large [of "nat n"]
  by (auto simp: rnd_def le_nat_iff split: if_splits)

lemma rnd_exact: "\<bar>rnd n\<bar> < 2 ^ 53 \<Longrightarrow> rnd n = n"
  using rnd_small [of n] rnd_large [of n] by linarith

lemma trunc_rat_of_int: "trunc_rat (of_int m) = m"
  by (simp add: trunc_rat_def)

lemma floatToInt_ok:
  assumes "floatToInt oor (float64_of_int n) = (w, True)"
  shows "w = word_of_int n"
proof -
  define m where "m = rnd n"
  define v where "v = int64_of_float oor (Finite (of_int m))"
  from assms have ok: "feq (float64_of_int (sint v)) (Finite (of_int m))"
    "minInt53 \<le> sint v" "sint v \<le> maxInt53" and w: "w = v"
    by (auto simp: floatToInt_def float64_of_int_rnd m_def v_def Let_def split: if_splits)
  from ok(2,3) have sm: "\<bar>sint v\<bar> < 2 ^ 53" by (simp add: minInt53_def maxInt53_def)
  then have "rnd (sint v) = sint v" by (rule rnd_small)
  with ok(1) have "feq (Finite (of_int (sint v))) (Finite (of_int m))"
    by (simp only: float64_of_int_rnd)
  then have "(of_int (sint v) :: rat) = of_int m" by (simp only: feq.simps float64.inject)
  then have e: "sint v = m" by (simp only: of_int_eq_iff)
  with sm have "rnd n = n" unfolding m_def by (intro rnd_exact) simp
  with e have "sint v = n" by (simp add: m_def)
  then have "word_of_int (sint v) = (word_of_int n :: 64 word)" by simp
  with w show ?thesis by simp
qed

lemma floatToUint_ok:
  assumes "floatToUint oor (float64_of_int n) = (w, True)"
  shows "w = word_of_int n"
proof -
  define m where "m = rnd n"
  define v where "v = uint64_of_float oor (Finite (of_int m))"
  from assms have ok: "feq (float64_of_int (uint v)) (Finite (of_int m))"
    "minUint53 \<le> uint v" "uint v \<le> maxUint53" and w: "w = v"
    by (auto simp: floatToUint_def float64_of_int_rnd m_def v_def Let_def split: if_splits)
  from ok(2,3) have sm: "\<bar>uint v\<bar> < 2 ^ 53" by (simp add: minUint53_def maxUint53_def)
  then have "rnd (uint v) = uint v" by (rule rnd_small)
  with ok(1) have "feq (Finite (of_int (uint v))) (Finite (of_int m))"
    by (simp only: float64_of_int_rnd)
  then have "(of_int (uint v) :: rat) = of_int m" by (simp only: feq.simps float64.inject)
  then have e: "uint v = m" by (simp only: of_int_eq_iff)
  with sm have "rnd n = n" unfolding m_def by (intro rnd_exact) simp
  with e have "uint v = n" by (simp add: m_def)
  then have "word_of_int (uint v) = (word_of_int n :: 64 word)" by simp
  with w show ?thesis by simp
qed

lemma floatTo_cases: "snd p = False \<or> (\<exists>w. p = (w, True))"
  by (cases p) auto

lemma Int_res_dec:
  assumes "Type r = Number" "Raw r = dec n" "Num r = float64_of_int n"
  shows "Int_res oor r = word_of_int n"
  using assms floatTo_cases [of "floatToInt oor (float64_of_int n)"]
  by (auto simp: Int_res_def parseInt_dec dest: floatToInt_ok split: prod.splits)

lemma Uint_res_dec:
  assumes "Type r = Number" "Raw r = dec n" "Num r = float64_of_int n" "0 \<le> n"
  shows "Uint_res oor r = word_of_int n"
  using assms floatTo_cases [of "floatToUint oor (float64_of_int n)"]
  by (auto simp: Uint_res_def parseUint_dec dest: floatToUint_ok split: prod.splits)


text \<open>
  C9 as stated, for every Number result whose Raw is the decimal representation of an
  integer \<open>n\<close>, fails at a Result that \<open>Get\<close> returns. The count segment \<open>#\<close> sets
  Num to the number of elements and leaves in Raw the text of the last element: for
  \<open>a.#\<close> on \<open>{"a":[5,6,7]}\<close> the Result is a Number with Raw \<open>7\<close> and Num 3.
  \<open>Int()\<close> and \<open>Uint()\<close> read Num first and return 3, not 7.
\<close>

theorem Int_Uint_count_result:
  \<open>Get 100 lib0 ''{"a":[5,6,7]}'' ''a.#''
     = Some \<lparr>Type = Number, Raw = ''7'', Str = [], Num = Finite 3, Index = 0\<rparr> \<and>
   dec 7 = ''7'' \<and>
   sint (Int_res 0 \<lparr>Type = Number, Raw = ''7'', Str = [], Num = Finite 3, Index = 0\<rparr>) = 3 \<and>
   uint (Uint_res 0 \<lparr>Type = Number, Raw = ''7'', Str = [], Num = Finite 3, Index = 0\<rparr>) = 3\<close>
proof -
  have g: \<open>Get 100 lib0 ''{"a":[5,6,7]}'' ''a.#''
     = Some \<lparr>Type = Number, Raw = ''7'', Str = [], Num = Finite 3, Index = 0\<rparr>\<close>
    by code_simp
  have d: "dec 7 = ''7''"
    by (simp add: dec_def dec_nat.simps char_of_def bit_Suc_0_iff)
  have b: "bitlen 3 = 2" by (simp add: bitlen.simps)
  have f: "float64_of_int 3 = Finite 3" by (simp add: float64_of_int_def rne53_def b)
  have i: "Int_res 0 \<lparr>Type = Number, Raw = ''7'', Str = [], Num = Finite 3, Index = 0\<rparr> = 3"
    by (simp add: Int_res_def floatToInt_def int64_of_float_def trunc_rat_def f
        minInt53_def maxInt53_def)
  have u: "Uint_res 0 \<lparr>Type = Number, Raw = ''7'', Str = [], Num = Finite 3, Index = 0\<rparr> = 3"
    by (simp add: Uint_res_def floatToUint_def uint64_of_float_def trunc_rat_def f
        minUint53_def maxUint53_def)
  show ?thesis using g d by (simp add: i u)
qed

text \<open>
  C9, amended by one hypothesis: Num is the float64 nearest to \<open>n\<close>, which is what
  parsing Raw gives and what every number sliced from a document carries. For a Number
  result whose Raw is the decimal representation of an integer \<open>n\<close> and whose Num is
  that float, \<open>Int()\<close> is \<open>n\<close> when \<open>n\<close> fits in 64 signed bits, and \<open>Uint()\<close> is
  \<open>n\<close> when \<open>n\<close> fits in 64 unsigned bits, whatever the float conversion lost and
  whatever an out-of-range float-to-integer conversion returns.
\<close>

theorem Int_Uint_lossless:
  assumes "Type r = Number" and "Raw r = dec n" and "Num r = float64_of_int n"
  shows "(- (2 ^ 63) \<le> n \<and> n < 2 ^ 63 \<longrightarrow> sint (Int_res oor r) = n) \<and>
         (0 \<le> n \<and> n < 2 ^ 64 \<longrightarrow> uint (Uint_res oor r) = n)"
proof (intro conjI impI)
  assume "- (2 ^ 63) \<le> n \<and> n < 2 ^ 63"
  then show "sint (Int_res oor r) = n"
    by (simp add: Int_res_dec [OF assms] sint_sbintrunc' signed_take_bit_int_eq_self)
next
  assume "0 \<le> n \<and> n < 2 ^ 64"
  then show "uint (Uint_res oor r) = n"
    by (simp add: Uint_res_dec [OF assms] uint_word_of_int take_bit_int_eq_self)
qed


lemma dec_example: "dec 9007199254740993 = ''9007199254740993''"
  by (simp add: dec_def dec_nat.simps char_of_def bit_Suc_0_iff)

lemma bitlen_example: "bitlen 9007199254740993 = 54"
  by (simp add: bitlen.simps)

lemma float64_of_int_example: "float64_of_int 9007199254740993 = Finite 9007199254740992"
  by (simp add: float64_of_int_def rne53_def bitlen_example)

theorem Int_Uint_lossless_witness:
  "sint (Int_res 0 \<lparr>Type = Number, Raw = ''9007199254740993'', Str = [],
                         Num = Finite 9007199254740992, Index = 0\<rparr>) = 9007199254740993 \<and>
   uint (Uint_res 0 \<lparr>Type = Number, Raw = ''9007199254740993'', Str = [],
                          Num = Finite 9007199254740992, Index = 0\<rparr>) = 9007199254740993"
  using Int_Uint_lossless [of "\<lparr>Type = Number, Raw = ''9007199254740993'', Str = [],
                         Num = Finite 9007199254740992, Index = 0\<rparr>" 9007199254740993 0]
  by (simp add: dec_example float64_of_int_example)


section \<open>Queries in brackets and in parentheses\<close>

text \<open>
  C5. The claim: a query in parentheses behaves as one in square brackets, so that for the
  document of the scenario the path \<open>friends.#(age>45).first\<close> gives the String
  \<open>Roger\<close>. The repository's own tests and README write queries in this form. The
  code does not do so: \<open>parseArrayPath\<close> reads a query only when the byte after
  \<open>#\<close> is \<open>[\<close>, the segment \<open>#(age>45)\<close> is then an array segment that no
  element matches, and \<open>Get\<close> returns the Result that does not exist.
\<close>

theorem Get_paren_query_not_found:
  \<open>Get 100 lib0 ''{"friends":[{"first":"Dale","age":44},{"first":"Roger","age":68}]}''
     ''friends.#(age>45).first''
   = Some \<lparr>Type = Null, Raw = [], Str = [], Num = Finite 0, Index = 0\<rparr>\<close>
  by code_simp

text \<open>
  The same query in square brackets, on the same document, finds the second element.
\<close>

lemma Get_bracket_query_first_match:
  \<open>Get 100 lib0 ''{"friends":[{"first":"Dale","age":44},{"first":"Roger","age":68}]}''
     ''friends.#[age>45].first''
   = Some \<lparr>Type = String, Raw = ''"Roger"'', Str = ''Roger'', Num = Finite 0, Index = 47\<rparr>\<close>
  by code_simp

lemma Get_query_ne_number:
  \<open>map_option Raw (Get 100 lib0 ''[{"a":1},{"a":2}]'' ''#[a!=1]'') = Some ''{"a":1}''\<close>
  by code_simp

section \<open>Many paths at once against one path at a time\<close>

text \<open>
  C1. The claim: \<open>GetMany\<close> returns one result for each path, and the i-th result is
  what \<open>Get\<close> returns for the i-th path, also when the shared scan is used. The
  repository's tests ask the same of the document below and expect 4, 5, 2 and nothing.
  The shared scan of the code gives nothing for \<open>four\<close> and \<open>five\<close>: after the value
  of \<open>three\<close>, which no path takes, the loop of \<open>parseGetMany\<close> steps over the brace
  that closes the inner object, and the keys \<open>four\<close> and \<open>five\<close> are read as keys of
  the inner object, where the paths \<open>four\<close> and \<open>five\<close> are not live.
\<close>

theorem GetMany_differs_from_Get:
  \<open>GetMany 100 lib0 ''{"one": {"two": 2, "three": 3}, "four": 4, "five": 5}''
       [''four'', ''five'', ''one.two'', ''one.six'']
     = Some [\<lparr>Type = Null, Raw = [], Str = [], Num = Finite 0, Index = 0\<rparr>,
             \<lparr>Type = Null, Raw = [], Str = [], Num = Finite 0, Index = 0\<rparr>,
             \<lparr>Type = Number, Raw = ''2'', Str = [], Num = Finite 2, Index = 0\<rparr>,
             \<lparr>Type = Null, Raw = [], Str = [], Num = Finite 0, Index = 0\<rparr>] \<and>
   Get 100 lib0 ''{"one": {"two": 2, "three": 3}, "four": 4, "five": 5}'' ''four''
     = Some \<lparr>Type = Number, Raw = ''4'', Str = [], Num = Finite 4, Index = 40\<rparr> \<and>
   Get 100 lib0 ''{"one": {"two": 2, "three": 3}, "four": 4, "five": 5}'' ''five''
     = Some \<lparr>Type = Number, Raw = ''5'', Str = [], Num = Finite 5, Index = 51\<rparr>\<close>
  by code_simp

text \<open>
  A second document of the repository's tests: a literal that no path takes is not the
  end of a value for \<open>parseAny\<close>, which goes on and takes the next key for the value,
  so the shared scan finds nothing for \<open>Nounce\<close>. An empty list of paths gives an empty
  list of results.
\<close>

lemma GetMany_after_null:
  \<open>GetMany 100 lib0 ''{"MarketName":null,"Nounce":6115}'' [''Nounce'', ''Buys'', ''Sells'', ''Fills'']
     = Some [\<lparr>Type = Null, Raw = [], Str = [], Num = Finite 0, Index = 0\<rparr>,
             \<lparr>Type = Null, Raw = [], Str = [], Num = Finite 0, Index = 0\<rparr>,
             \<lparr>Type = Null, Raw = [], Str = [], Num = Finite 0, Index = 0\<rparr>,
             \<lparr>Type = Null, Raw = [], Str = [], Num = Finite 0, Index = 0\<rparr>]\<close>
  by code_simp

lemma GetMany_no_paths:
  \<open>GetMany 100 lib0 ''{"MarketName":null,"Nounce":6115}'' [] = Some []\<close>
  by code_simp

section \<open>Documents without an object or an array\<close>

lemma find_open_none:
  "\<forall>k. i \<le> k \<and> k < length json \<longrightarrow> json ! k \<noteq> CHR ''{'' \<and> json ! k \<noteq> CHR ''[''
     \<Longrightarrow> \<not> find_open json i < length json"
proof (induction json i rule: find_open.induct)
  case (1 json i)
  show ?case
  proof (cases "i < length json")
    case True
    with 1 show ?thesis
      by (subst find_open.simps) auto
  next
    case False
    then show ?thesis by (subst find_open.simps) simp
  qed
qed

lemma Get_c_without_opener:
  assumes "CHR ''{'' \<notin> set json" and "CHR ''['' \<notin> set json"
  shows "Get_c (Suc n) L json path =
           Some \<lparr>c_json = json, c_value = Result0, c_calcd = False, c_vptr = None\<rparr>"
proof -
  have "\<forall>k. 0 \<le> k \<and> k < length json \<longrightarrow> json ! k \<noteq> CHR ''{'' \<and> json ! k \<noteq> CHR ''[''"
    using assms by (metis nth_mem)
  then have "\<not> find_open json 0 < length json" by (rule find_open_none)
  then show ?thesis by (simp add: Let_def)
qed

lemma tolit_nonempty: "json \<noteq> [] \<Longrightarrow> tolit json \<noteq> []"
  using tolit_loop_ge [of 1 json] by (cases json) (auto simp: tolit_def)

lemma first_byte_drop:
  "i < length json \<Longrightarrow> bv (json ! i) \<le> 32 \<Longrightarrow>
     first_byte (drop i json) = first_byte (drop (Suc i) json)"
  by (simp add: first_byte_def Cons_nth_drop_Suc [symmetric])

lemma first_byte_here:
  "i < length json \<Longrightarrow> \<not> bv (json ! i) \<le> 32 \<Longrightarrow> first_byte (drop i json) = Some (json ! i)"
  by (simp add: first_byte_def Cons_nth_drop_Suc [symmetric])

lemma Parse_loop_scalar:
  "first_byte (drop i json) = Some c \<Longrightarrow> scalar_type c = Some ty \<Longrightarrow>
     Exists (Parse_loop L json i) \<and> Type (Parse_loop L json i) = ty"
proof (induction L json i rule: Parse_loop.induct)
  case (1 L json i)
  show ?case
  proof (cases "i < length json")
    case False
    with 1(2) show ?thesis by (simp add: first_byte_def)
  next
    case True
    show ?thesis
    proof (cases "bv (json ! i) \<le> 32")
      case ws: True
      then have no: "json ! i \<noteq> CHR ''{''" "json ! i \<noteq> CHR ''[''" by (auto simp: bv_def)
      have "first_byte (drop (i + 1) json) = Some c"
        using first_byte_drop [OF True ws] 1(2) by simp
      then have "Exists (Parse_loop L json (i + 1)) \<and> Type (Parse_loop L json (i + 1)) = ty"
        using 1(1) [OF True refl _ ws] no 1(3) by simp
      moreover have "Parse_loop L json i = Parse_loop L json (i + 1)"
        using True ws no by (subst Parse_loop.simps) (simp add: Let_def)
      ultimately show ?thesis by simp
    next
      case nws: False
      have c: "c = json ! i" using first_byte_here [OF True nws] 1(2) by simp
      have d: "drop i json \<noteq> []" using True by simp
      have e: "Parse_loop L json i =
        (let c = json ! i
         in if c = CHR ''{'' \<or> c = CHR ''['' then Result0\<lparr>Type := JSON, Raw := drop i json\<rparr>
            else if c = CHR ''n'' then Result0\<lparr>Type := Null, Raw := tolit (drop i json)\<rparr>
            else if c = CHR ''t'' then Result0\<lparr>Type := True_T, Raw := tolit (drop i json)\<rparr>
            else if c = CHR ''f'' then Result0\<lparr>Type := False_T, Raw := tolit (drop i json)\<rparr>
            else if c = CHR 0x22 then
              (case tostr (drop i json) of
                 (raw, str) \<Rightarrow> Result0\<lparr>Type := String, Raw := raw, Str := str\<rparr>)
            else if is_digit c \<or> c = CHR ''-'' then
              (case tonum L (drop i json) of
                 (raw, num) \<Rightarrow> Result0\<lparr>Type := Number, Raw := raw, Num := num\<rparr>)
            else Result0)"
        using True nws by (subst Parse_loop.simps) (simp add: Let_def)
      show ?thesis
        using 1(3) tolit_nonempty [OF d] unfolding c e
        by (auto simp: Let_def scalar_type_def Exists_def Result0_def is_digit_def bv_def
            split: if_splits prod.splits)
    qed
  qed
qed


lemma tonum_loop_number:
  "\<forall>k. i \<le> k \<and> k < length json \<longrightarrow> number_byte (json ! k) \<Longrightarrow> length json \<le> tonum_loop json i"
proof (induction json i rule: tonum_loop.induct)
  case (1 json i)
  show ?case
  proof (cases "i < length json")
    case False
    then show ?thesis by (subst tonum_loop.simps) simp
  next
    case True
    with "1.prems" have nb: "number_byte (json ! i)" by simp
    have rest: "\<forall>k. i + 1 \<le> k \<and> k < length json \<longrightarrow> number_byte (json ! k)"
      using "1.prems" by simp
    from nb have step: "tonum_loop json i = tonum_loop json (i + 1)"
      using True
      by (subst tonum_loop.simps) (auto simp: number_byte_def is_digit_def bv_def)
    from nb have
      "(bv (json ! i) \<le> 45 \<and> \<not> (bv (json ! i) \<le> 32 \<or> json ! i = CHR '','')) \<or>
       (\<not> bv (json ! i) \<le> 45 \<and> bv (json ! i) < 93) \<or>
       (\<not> bv (json ! i) \<le> 45 \<and> \<not> bv (json ! i) < 93 \<and> (json ! i = CHR ''e'' \<or> json ! i = CHR ''E''))"
      by (auto simp: number_byte_def is_digit_def bv_def)
    then have "length json \<le> tonum_loop json (i + 1)"
      using "1.IH" True rest by auto
    with step show ?thesis by simp
  qed
qed

lemma Parse_Cons:
  "\<not> bv c \<le> 32 \<Longrightarrow> Parse L (c # cs) =
        (if c = CHR ''{'' \<or> c = CHR ''['' then Result0\<lparr>Type := JSON, Raw := c # cs\<rparr>
            else if c = CHR ''n'' then Result0\<lparr>Type := Null, Raw := tolit (c # cs)\<rparr>
            else if c = CHR ''t'' then Result0\<lparr>Type := True_T, Raw := tolit (c # cs)\<rparr>
            else if c = CHR ''f'' then Result0\<lparr>Type := False_T, Raw := tolit (c # cs)\<rparr>
            else if c = CHR 0x22 then
              (case tostr (c # cs) of
                 (raw, str) \<Rightarrow> Result0\<lparr>Type := String, Raw := raw, Str := str\<rparr>)
            else if is_digit c \<or> c = CHR ''-'' then
              (case tonum L (c # cs) of
                 (raw, num) \<Rightarrow> Result0\<lparr>Type := Number, Raw := raw, Num := num\<rparr>)
            else Result0)"
  unfolding Parse_def by (subst Parse_loop.simps) (simp add: Let_def)

lemma Parse_number:
  assumes "is_digit c \<or> c = CHR ''-''" and "\<forall>x \<in> set cs. number_byte x"
  shows "Parse L (c # cs) = Result0\<lparr>Type := Number, Raw := c # cs, Num := ParseFloat L (c # cs)\<rparr>"
proof -
  have "\<forall>k. 1 \<le> k \<and> k < length (c # cs) \<longrightarrow> number_byte ((c # cs) ! k)"
    using assms(2) by (auto simp: nth_Cons split: nat.splits)
  then have "length (c # cs) \<le> tonum_loop (c # cs) 1" by (rule tonum_loop_number)
  then have t: "tonum L (c # cs) = (c # cs, ParseFloat L (c # cs))"
    by (simp add: tonum_def Let_def)
  have n: "\<not> bv c \<le> 32" "c \<noteq> CHR ''{''" "c \<noteq> CHR ''[''" "c \<noteq> CHR ''n''" "c \<noteq> CHR ''t''"
    "c \<noteq> CHR ''f''" "c \<noteq> CHR 0x22"
    using assms(1) by (auto simp: is_digit_def bv_def)
  show ?thesis
    using assms(1) by (simp only: Parse_Cons [OF n(1)] n(2-) t if_False if_True simp_thms split)
qed

lemma tostr_loop_plain:
  assumes "\<forall>x \<in> set s. x \<noteq> CHR 0x22 \<and> x \<noteq> CHR 0x5C"
    and "1 \<le> i" and "i \<le> length s + 1"
  shows "tostr_loop (CHR 0x22 # s @ [CHR 0x22]) i = (CHR 0x22 # s @ [CHR 0x22], s)"
  using assms(2,3)
proof (induction "length s + 1 - i" arbitrary: i)
  case 0
  then have i: "i = length s + 1" by simp
  have q: "(CHR 0x22 # s @ [CHR 0x22]) ! i = CHR 0x22"
    by (simp add: i nth_append)
  show ?case
    by (subst tostr_loop.simps) (simp add: q bv_def i substr_def)
next
  case (Suc d)
  then have il: "i \<le> length s" "1 \<le> i" by simp_all
  then have e: "(CHR 0x22 # s @ [CHR 0x22]) ! i = s ! (i - 1)"
    by (cases i) (auto simp: nth_append)
  have m: "s ! (i - 1) \<in> set s" using il by (cases i) auto
  with assms(1) have ne: "s ! (i - 1) \<noteq> CHR 0x22" "s ! (i - 1) \<noteq> CHR 0x5C" by auto
  have ih: "tostr_loop (CHR 0x22 # s @ [CHR 0x22]) (i + 1) = (CHR 0x22 # s @ [CHR 0x22], s)"
    using Suc il by (intro Suc.hyps(1)) auto
  show ?case
    using il ne ih by (subst tostr_loop.simps) (simp add: e)
qed

lemma Parse_string:
  assumes "\<forall>x \<in> set s. x \<noteq> CHR 0x22 \<and> x \<noteq> CHR 0x5C"
  shows "Parse L (CHR 0x22 # s @ [CHR 0x22]) =
           Result0\<lparr>Type := String, Raw := CHR 0x22 # s @ [CHR 0x22], Str := s\<rparr>"
proof -
  have t: "tostr (CHR 0x22 # s @ [CHR 0x22]) = (CHR 0x22 # s @ [CHR 0x22], s)"
    unfolding tostr_def using tostr_loop_plain [OF assms, of 1] by simp
  show ?thesis
    by (simp add: Parse_Cons bv_def t)
qed

lemma Parse_true: "Parse L ''true'' = Result0\<lparr>Type := True_T, Raw := ''true''\<rparr>"
  by (simp add: Parse_Cons tolit_def tolit_loop.simps bv_def Let_def)

lemma Parse_null: "Parse L ''null'' = Result0\<lparr>Type := Null, Raw := ''null''\<rparr>"
  by (simp add: Parse_Cons tolit_def tolit_loop.simps bv_def Let_def)


text \<open>
  C10 as stated takes every document whose top-level value is a bare string to be one
  that \<open>Get\<close> answers with the zero Result. \<open>Get\<close> looks for the first \<open>{\<close> or \<open>[\<close>
  byte wherever it stands, also inside a string: on the document \<open>"[1,2]"\<close>, a bare
  string, the path \<open>0\<close> gives the Number 1.
\<close>

theorem Get_bare_string_with_bracket:
  \<open>Get 100 lib0 ''"[1,2]"'' ''0''
     = Some \<lparr>Type = Number, Raw = ''1'', Str = [], Num = Finite 1, Index = 2\<rparr>\<close>
  by code_simp

text \<open>
  C10, amended. When no byte of the document is \<open>{\<close> or \<open>[\<close>, \<open>Get\<close> returns the zero
  Result, which does not exist, for every path. \<open>Parse\<close> of such a document returns the
  scalar itself: for a number (a digit or a minus sign, then digits, signs, points and
  exponent letters) a Number whose Raw is the document and whose Num is the float parse
  of it; for a string with no quote and no backslash between its quotes a String whose
  Raw is the document and whose Str is the text between the quotes; for \<open>true\<close> and
  \<open>null\<close> the literal with Raw the document; and whenever the first byte above the
  space starts a string, a number, \<open>true\<close>, \<open>false\<close> or \<open>null\<close>, a Result that exists
  and has the type of that scalar. Nothing is said of the Raw of \<open>false\<close> or of a
  string with escapes.
\<close>

theorem Get_without_opener:
  assumes "CHR ''{'' \<notin> set json" and "CHR ''['' \<notin> set json"
  shows "Get (Suc n) L json path = Some Result0 \<and> \<not> Exists Result0 \<and>
         (\<forall>c cs. json = c # cs \<and> (is_digit c \<or> c = CHR ''-'') \<and> (\<forall>x \<in> set cs. number_byte x) \<longrightarrow>
            Parse L json = Result0\<lparr>Type := Number, Raw := json, Num := ParseFloat L json\<rparr>) \<and>
         (\<forall>s. json = CHR 0x22 # s @ [CHR 0x22] \<and> (\<forall>x \<in> set s. x \<noteq> CHR 0x22 \<and> x \<noteq> CHR 0x5C) \<longrightarrow>
            Parse L json = Result0\<lparr>Type := String, Raw := json, Str := s\<rparr>) \<and>
         (json = ''true'' \<longrightarrow> Parse L json = Result0\<lparr>Type := True_T, Raw := json\<rparr>) \<and>
         (json = ''null'' \<longrightarrow> Parse L json = Result0\<lparr>Type := Null, Raw := json\<rparr>) \<and>
         (\<forall>c ty. first_byte json = Some c \<and> scalar_type c = Some ty \<longrightarrow>
            Exists (Parse L json) \<and> Type (Parse L json) = ty)"
proof -
  have "Get (Suc n) L json path = Some Result0"
    unfolding Get_def Get_c_without_opener [OF assms]
    by (simp add: GetResult_def Result0_def)
  moreover have "\<not> Exists Result0" by (simp add: Exists_def Result0_def)
  moreover have "Parse L json = Result0\<lparr>Type := Number, Raw := json, Num := ParseFloat L json\<rparr>"
    if "json = c # cs" "is_digit c \<or> c = CHR ''-''" "\<forall>x \<in> set cs. number_byte x" for c cs
    unfolding that(1) using that(2,3) by (rule Parse_number)
  moreover have "Parse L json = Result0\<lparr>Type := String, Raw := json, Str := s\<rparr>"
    if "json = CHR 0x22 # s @ [CHR 0x22]" "\<forall>x \<in> set s. x \<noteq> CHR 0x22 \<and> x \<noteq> CHR 0x5C" for s
    unfolding that(1) using that(2) by (rule Parse_string)
  moreover have "json = ''true'' \<longrightarrow> Parse L json = Result0\<lparr>Type := True_T, Raw := json\<rparr>"
    using Parse_true by blast
  moreover have "json = ''null'' \<longrightarrow> Parse L json = Result0\<lparr>Type := Null, Raw := json\<rparr>"
    using Parse_null by blast
  moreover have "Exists (Parse L json) \<and> Type (Parse L json) = ty"
    if "first_byte json = Some c" "scalar_type c = Some ty" for c ty
    using Parse_loop_scalar [of 0 json c ty L] that by (simp add: Parse_def)
  ultimately show ?thesis by blast
qed

lemma atof_example: "ParseFloat lib0 ''123'' = Finite 123"
  by code_simp

theorem Get_without_opener_witness:
  \<open>Get (Suc 0) lib0 ''123'' ''a'' = Some Result0 \<and> \<not> Exists Result0 \<and>
   Parse lib0 ''123'' = Result0\<lparr>Type := Number, Raw := ''123'', Num := Finite 123\<rparr> \<and>
   Get (Suc 0) lib0 ''"abc"'' [] = Some Result0 \<and>
   Parse lib0 ''"abc"'' = Result0\<lparr>Type := String, Raw := ''"abc"'', Str := ''abc''\<rparr> \<and>
   Get (Suc 0) lib0 ''true'' ''a'' = Some Result0 \<and>
   Parse lib0 ''true'' = Result0\<lparr>Type := True_T, Raw := ''true''\<rparr> \<and>
   Get (Suc 0) lib0 ''null'' ''a'' = Some Result0 \<and>
   Parse lib0 ''null'' = Result0\<lparr>Type := Null, Raw := ''null''\<rparr> \<and>
   Get (Suc 0) lib0 ''false'' ''a'' = Some Result0 \<and>
   Exists (Parse lib0 ''false'') \<and> Type (Parse lib0 ''false'') = False_T\<close>
proof -
  have n: "is_digit CHR ''1''" "\<forall>x \<in> set ''23''. number_byte x"
    by (simp_all add: is_digit_def number_byte_def bv_def)
  have f: "first_byte ''false'' = Some CHR ''f''" "scalar_type CHR ''f'' = Some False_T"
    by (simp_all add: first_byte_def scalar_type_def bv_def is_digit_def)
  have w1: "Get (Suc 0) lib0 ''123'' ''a'' = Some Result0 \<and> \<not> Exists Result0 \<and>
      Parse lib0 ''123'' = Result0\<lparr>Type := Number, Raw := ''123'', Num := Finite 123\<rparr>"
    using Get_without_opener [of "''123''" 0 lib0 "''a''"] n atof_example by simp
  have w2: "Get (Suc 0) lib0 (CHR 0x22 # ''abc'' @ [CHR 0x22]) [] = Some Result0 \<and>
      Parse lib0 (CHR 0x22 # ''abc'' @ [CHR 0x22])
        = Result0\<lparr>Type := String, Raw := CHR 0x22 # ''abc'' @ [CHR 0x22], Str := ''abc''\<rparr>"
    using Get_without_opener [of "CHR 0x22 # ''abc'' @ [CHR 0x22]" 0 lib0 "[]"] by simp
  have w3: "Get (Suc 0) lib0 ''true'' ''a'' = Some Result0 \<and>
      Parse lib0 ''true'' = Result0\<lparr>Type := True_T, Raw := ''true''\<rparr>"
    using Get_without_opener [of "''true''" 0 lib0 "''a''"] by simp
  have w4: "Get (Suc 0) lib0 ''null'' ''a'' = Some Result0 \<and>
      Parse lib0 ''null'' = Result0\<lparr>Type := Null, Raw := ''null''\<rparr>"
    using Get_without_opener [of "''null''" 0 lib0 "''a''"] by simp
  have w5: "Get (Suc 0) lib0 ''false'' ''a'' = Some Result0 \<and>
      Exists (Parse lib0 ''false'') \<and> Type (Parse lib0 ''false'') = False_T"
    using Get_without_opener [of "''false''" 0 lib0 "''a''"] f by simp
  from w1 w2 w3 w4 w5 show ?thesis by simp
qed

text \<open>
  The Raw that \<open>Parse\<close> gives for the document \<open>false\<close>: \<open>tolit\<close> stops at a byte that
  is \<open>a\<close> or below, so the literal is cut after its first letter.
\<close>

lemma Parse_false_raw: "Parse L ''false'' = Result0\<lparr>Type := False_T, Raw := ''f''\<rparr>"
  by (simp add: Parse_Cons tolit_def tolit_loop.simps bv_def Let_def)


end
